theory Spec2Isabelle
  imports Main "HOL-Library.Sublist"
begin

section \<open>Go values: errors, exec options, events\<close>

text \<open>
  A Go \<^verbatim>\<open>error\<close> is a value. \<^verbatim>\<open>fmt.Errorf(format, operands...)\<close> is kept as its
  format string with its operands, so that no rendering of \<^verbatim>\<open>%q\<close> or \<^verbatim>\<open>%v\<close> has to be
  invented: an operand printed with \<^verbatim>\<open>%w\<close> is \<open>ErrW\<close>, an error printed with \<^verbatim>\<open>%v\<close> is
  \<open>ErrV\<close>, a string operand is \<open>Str\<close>. \<open>Foreign\<close> is an error value handed back by
  a command, a copy or a helper outside the sources. \<open>ErrNotExist\<close> stands for the errors
  of \<^verbatim>\<open>os.Stat\<close> that \<^verbatim>\<open>os.IsNotExist\<close> and \<^verbatim>\<open>errors.Is(err, os.ErrNotExist)\<close> accept.
\<close>

datatype error =
    ErrEnvironmentNotFound
  | ErrNotExist
  | ErrSyntax
  | ErrRange
  | NumError string string error
  | Foreign string
  | Errorf string "operand list"
and operand = Str string | ErrV error | ErrW error

record ExecOptions =
  User :: string
  Env :: "(string \<times> string) list"

datatype level = LDebug | LWarn | LError

text \<open>
  Everything the program does to the outside is an event: a command run inside a
  service, a file copy, a call of a helper of the repository whose body is not in the
  sources, a local file-system change, a log line that reports an error. Durations are
  nanoseconds, as \<^verbatim>\<open>time.Duration\<close> is.
\<close>

datatype event =
    Exec string "string list" "ExecOptions option"
  | CopyTo string string string
  | CopyFrom string string string
  | StartServices "string list"
  | WriteEmbeddedWatchdog string
  | Cleanup string
  | WaitForRemoteFile string int
  | WaitForProcessStopped string int
  | OsStat string
  | OsReadFile string
  | FilepathWalk string
  | CalculateSHA256 string
  | MkdirAll string
  | MkdirTemp string
  | RemoveAll string
  | WriteFile string string
  | CreateTarball string string string
  | ExtractTarball string string
  | CheckPrerequisites
  | DetectEnvironment
  | DetectNeo4jEdition
  | GetInfrahubVersion
  | WaitForRunningTasks
  | StopAppContainers
  | StartAppContainers "string list"
  | GenerateBackupFilename
  | GetWritableTempDir string
  | WipeTransientData
  | RestartDependencies
  | Sleep int
  | RunCommand string "string list"
  | RunCommandQuiet string "string list"
  | ListKubernetesNamespaces
  | Log level string "operand list"

text \<open>What a call gives back: a string, a list of strings, an error (\<open>None\<close> is \<^verbatim>\<open>nil\<close>).\<close>

datatype reply = Reply (stdout: string) (items: "string list") (failure: "error option")

record BackupMetadata =
  BackupID :: string
  CreatedAt :: string
  ToolVersion :: string
  InfrahubVersion :: string
  Neo4jEdition :: string
  Components :: "string list"
  Checksums :: "(string \<times> string) list"

record Configuration =
  BackupDir :: string
  Neo4jDatabase :: string
  Neo4jUsername :: string
  Neo4jPassword :: string
  PostgresUsername :: string
  PostgresPassword :: string
  PostgresDatabase :: string
  K8sNamespace :: string

text \<open>
  The world answers every event, given the events so far, so the same command may
  succeed once and fail later. The local file system is read through \<open>os_Stat\<close>,
  \<open>calculateSHA256\<close>, \<open>filepath_Walk\<close> and \<open>os_ReadFile\<close>, as it stands when
  the operation reads it: \<open>os_Stat\<close> gives the error of \<^verbatim>\<open>os.Stat\<close> (the code
  uses nothing else of it), \<open>filepath_Walk\<close> the entries in the order \<^verbatim>\<open>filepath.Walk\<close>
  visits them, each with whether it is a directory and the error the walk function
  would receive. A read is recorded as an event
  too, so that a trace tells which files were looked at. Constants and helpers that are
  declared outside the sources, and library functions that depend on Unicode tables or
  on the platform's path syntax, are fields too: a theorem holds whatever they are.
\<close>

record world =
  answer :: "event list \<Rightarrow> event \<Rightarrow> reply"
  os_Stat :: "string \<Rightarrow> error option"
  os_ReadFile :: "string \<Rightarrow> error + string"
  calculateSHA256 :: "string \<Rightarrow> error + string"
  filepath_Walk :: "string \<Rightarrow> (string \<times> bool \<times> error option) list"
  filepath_Join :: "string list \<Rightarrow> string"
  filepath_Rel :: "string \<Rightarrow> string \<Rightarrow> string"
  strings_ToLower :: "string \<Rightarrow> string"
  json_Unmarshal :: "string \<Rightarrow> error + BackupMetadata"
  json_MarshalIndent :: "BackupMetadata \<Rightarrow> error + string"
  createBackupMetadata :: "string \<Rightarrow> bool \<Rightarrow> string \<Rightarrow> string \<Rightarrow> BackupMetadata"
  selectWatchdogBinary :: "string \<Rightarrow> error + string"
  podSelectors :: "string \<Rightarrow> string list"
  nonEmptyLines :: "string \<Rightarrow> string list"
  neo4jRemoteWorkDir :: string
  neo4jRemoteWatchdogBinary :: string
  neo4jRemoteWatchdogReady :: string
  neo4jRemoteWatchdogLog :: string
  neo4jPIDFile :: string

type_synonym 'a io = "event list \<Rightarrow> 'a \<times> event list"

definition ret :: "'a \<Rightarrow> 'a io" where
  "ret x t = (x, t)"

definition bnd :: "'a io \<Rightarrow> ('a \<Rightarrow> 'b io) \<Rightarrow> 'b io" where
  "bnd m f t = (case m t of (x, t') \<Rightarrow> f x t')"

definition perform :: "world \<Rightarrow> event \<Rightarrow> reply io" where
  "perform w e t = (answer w t e, t @ [e])"

definition logf :: "level \<Rightarrow> string \<Rightarrow> operand list \<Rightarrow> unit io" where
  "logf l f ops t = ((), t @ [Log l f ops])"

definition stat :: "world \<Rightarrow> string \<Rightarrow> (error option) io" where
  "stat w p t = (os_Stat w p, t @ [OsStat p])"

definition readFile :: "world \<Rightarrow> string \<Rightarrow> (error + string) io" where
  "readFile w p t = (os_ReadFile w p, t @ [OsReadFile p])"

definition sha256 :: "world \<Rightarrow> string \<Rightarrow> (error + string) io" where
  "sha256 w p t = (calculateSHA256 w p, t @ [CalculateSHA256 p])"

definition whenSome :: "'a option \<Rightarrow> ('a \<Rightarrow> unit io) \<Rightarrow> unit io" where
  "whenSome x f = (case x of None \<Rightarrow> ret () | Some e \<Rightarrow> f e)"

section \<open>Library functions of Go that the code calls\<close>

text \<open>
  \<^verbatim>\<open>strings.TrimSpace\<close> removes leading and trailing white space as Unicode defines it.
  A Go string is a byte sequence; the white-space code points are listed by their UTF-8
  encodings (U+0009..U+000D, U+0020, U+0085, U+00A0, U+1680, U+2000..U+200A, U+2028,
  U+2029, U+202F, U+205F, U+3000).
\<close>

definition whiteSpace :: "string list" where
  "whiteSpace =
     [[CHR 0x09], [CHR 0x0A], [CHR 0x0B], [CHR 0x0C], [CHR 0x0D], [CHR 0x20],
      [CHR 0xC2, CHR 0x85], [CHR 0xC2, CHR 0xA0], [CHR 0xE1, CHR 0x9A, CHR 0x80],
      [CHR 0xE2, CHR 0x80, CHR 0x80], [CHR 0xE2, CHR 0x80, CHR 0x81],
      [CHR 0xE2, CHR 0x80, CHR 0x82], [CHR 0xE2, CHR 0x80, CHR 0x83],
      [CHR 0xE2, CHR 0x80, CHR 0x84], [CHR 0xE2, CHR 0x80, CHR 0x85],
      [CHR 0xE2, CHR 0x80, CHR 0x86], [CHR 0xE2, CHR 0x80, CHR 0x87],
      [CHR 0xE2, CHR 0x80, CHR 0x88], [CHR 0xE2, CHR 0x80, CHR 0x89],
      [CHR 0xE2, CHR 0x80, CHR 0x8A], [CHR 0xE2, CHR 0x80, CHR 0xA8],
      [CHR 0xE2, CHR 0x80, CHR 0xA9], [CHR 0xE2, CHR 0x80, CHR 0xAF],
      [CHR 0xE2, CHR 0x81, CHR 0x9F], [CHR 0xE3, CHR 0x80, CHR 0x80]]"

fun leading :: "string list \<Rightarrow> string \<Rightarrow> nat" where
  "leading [] s = 0"
| "leading (p # ps) s = (if p \<noteq> [] \<and> take (length p) s = p then length p else leading ps s)"

function trimLeading :: "string list \<Rightarrow> string \<Rightarrow> string" where
  "trimLeading ps s = (if leading ps s = 0 then s else trimLeading ps (drop (leading ps s) s))"
  by pat_completeness auto

termination trimLeading
proof (relation "measure (\<lambda>(ps, s). length s)")
  show "wf (measure (\<lambda>(ps, s). length s))" by simp
next
  fix ps :: "string list" and s :: string
  assume nz: "leading ps s \<noteq> 0"
  have "leading qs s \<le> length s" for qs
  proof (induction qs)
    case Nil
    show ?case by simp
  next
    case (Cons p qs)
    have "length p \<le> length s" if "take (length p) s = p"
      using arg_cong [OF that, of length] by simp
    with Cons show ?case by simp
  qed
  then have "leading ps s \<le> length s" .
  with nz show "((ps, drop (leading ps s) s), (ps, s)) \<in> measure (\<lambda>(ps, s). length s)"
    by simp
qed

declare trimLeading.simps [simp del]

definition strings_TrimSpace :: "string \<Rightarrow> string" where
  "strings_TrimSpace s = rev (trimLeading (map rev whiteSpace) (rev (trimLeading whiteSpace s)))"

text \<open>
  \<^verbatim>\<open>strconv.Atoi\<close> on a 64-bit platform: an optional sign, then decimal digits only.
  The digits are accumulated as \<^verbatim>\<open>ParseUint\<close> does in 64 bits: a byte that is no digit is
  a syntax error where it is met, a value beyond \<^verbatim>\<open>2^64 - 1\<close> a range error where it is
  reached; the signed bound is checked at the end.
\<close>

definition isDigit :: "char \<Rightarrow> bool" where
  "isDigit c = (48 \<le> (of_char c :: int) \<and> (of_char c :: int) \<le> 57)"

definition digitVal :: "char \<Rightarrow> int" where
  "digitVal c = of_char c - 48"

fun parseDigits :: "int \<Rightarrow> string \<Rightarrow> error + int" where
  "parseDigits n [] = Inr n"
| "parseDigits n (c # cs) =
     (if \<not> isDigit c then Inl ErrSyntax
      else if n * 10 + digitVal c > 2 ^ 64 - 1 then Inl ErrRange
      else parseDigits (n * 10 + digitVal c) cs)"

definition strconv_Atoi :: "string \<Rightarrow> error + int" where
  "strconv_Atoi s =
     (let neg = (s \<noteq> [] \<and> hd s = CHR ''-'');
          body = (if s \<noteq> [] \<and> (hd s = CHR ''-'' \<or> hd s = CHR ''+'') then tl s else s)
      in if body = [] then Inl (NumError ''Atoi'' s ErrSyntax)
         else (case parseDigits 0 body of
                 Inl e \<Rightarrow> Inl (NumError ''Atoi'' s e)
               | Inr n \<Rightarrow>
                   if \<not> neg \<and> n \<ge> 2 ^ 63 then Inl (NumError ''Atoi'' s ErrRange)
                   else if neg \<and> n > 2 ^ 63 then Inl (NumError ''Atoi'' s ErrRange)
                   else Inr (if neg then - n else n)))"

text \<open>
  \<^verbatim>\<open>strings.EqualFold\<close> compares under Unicode simple case folding. The code calls it
  with the second argument \<^verbatim>\<open>"Running"\<close> or the community edition name; the letters of
  these have no fold partner outside ASCII (only k and s have one), so there the
  comparison is equality of the bytes after folding A..Z onto a..z.
\<close>

definition foldASCII :: "char \<Rightarrow> char" where
  "foldASCII c = (if 65 \<le> (of_char c :: nat) \<and> (of_char c :: nat) \<le> 90
                  then char_of (of_char c + (32::nat)) else c)"

definition strings_EqualFold :: "string \<Rightarrow> string \<Rightarrow> bool" where
  "strings_EqualFold s t = (map foldASCII s = map foldASCII t)"

fun strings_Join :: "string list \<Rightarrow> string \<Rightarrow> string" where
  "strings_Join [] sep = []"
| "strings_Join [x] sep = x"
| "strings_Join (x # y # ys) sep = x @ sep @ strings_Join (y # ys) sep"

text \<open>\<^verbatim>\<open>strings.Split(s, sep)\<close> for the one-byte separators the code uses.\<close>

fun splitOn :: "char \<Rightarrow> string \<Rightarrow> string \<Rightarrow> string list" where
  "splitOn sep acc [] = [rev acc]"
| "splitOn sep acc (c # cs) =
     (if c = sep then rev acc # splitOn sep [] cs else splitOn sep (c # acc) cs)"

definition strings_Split :: "string \<Rightarrow> char \<Rightarrow> string list" where
  "strings_Split s sep = splitOn sep [] s"

fun strings_Contains :: "string \<Rightarrow> string \<Rightarrow> bool" where
  "strings_Contains [] sub = (sub = [])"
| "strings_Contains (c # cs) sub =
     (take (length sub) (c # cs) = sub \<or> strings_Contains cs sub)"

definition strings_TrimSuffix :: "string \<Rightarrow> string \<Rightarrow> string" where
  "strings_TrimSuffix s suf =
     (if length suf \<le> length s \<and> drop (length s - length suf) s = suf
      then take (length s - length suf) s else s)"

section \<open>The edition names\<close>

text \<open>
  Modelled from the spec: the constants \<^verbatim>\<open>neo4jEditionCommunity\<close> and
  \<^verbatim>\<open>neo4jEditionEnterprise\<close> are declared outside the sources; the metadata schema and the
  end-to-end scenario of the specification give the two edition names, in lower case.
\<close>

definition neo4jEditionCommunity :: string where
  "neo4jEditionCommunity = ''community''"

definition neo4jEditionEnterprise :: string where
  "neo4jEditionEnterprise = ''enterprise''"

definition neo4jTempBackupDir :: string where
  "neo4jTempBackupDir = ''/tmp/infrahubops''"

definition second :: int where
  "second = 1000000000"

definition neo4jWatchdogInitTimeout :: int where
  "neo4jWatchdogInitTimeout = 5 * second"

definition neo4jProcessStopTimeout :: int where
  "neo4jProcessStopTimeout = 120 * second"

definition neo4jMetadataScriptPath :: string where
  "neo4jMetadataScriptPath = ''/data/scripts/neo4j/restore_metadata.cypher''"

section \<open>backup\_neo4j.go: pausing and resuming the community database\<close>

definition readNeo4jPID :: "world \<Rightarrow> (error + string) io" where
  "readNeo4jPID w =
     bnd (perform w (Exec ''database'' [''cat'', neo4jPIDFile w] None)) (\<lambda>r.
       case failure r of
         Some err \<Rightarrow> ret (Inl (Errorf ''failed to read neo4j pid file: %w'' [ErrW err]))
       | None \<Rightarrow>
           (let pid = strings_TrimSpace (stdout r) in
            if pid = [] then ret (Inl (Errorf ''neo4j pid file is empty'' []))
            else (case strconv_Atoi pid of
                    Inl err \<Rightarrow> ret (Inl (Errorf ''invalid pid %q: %w'' [Str pid, ErrW err]))
                  | Inr n \<Rightarrow> ret (Inr pid))))"

definition detectNeo4jArchitecture :: "world \<Rightarrow> (error + string) io" where
  "detectNeo4jArchitecture w =
     bnd (perform w (Exec ''database'' [''uname'', ''-m''] None)) (\<lambda>r.
       case failure r of
         Some err \<Rightarrow> ret (Inl (Errorf ''failed to detect neo4j architecture: %w'' [ErrW err]))
       | None \<Rightarrow>
           (let arch = strings_TrimSpace (stdout r) in
            if arch = [] then ret (Inl (Errorf ''empty architecture string'' []))
            else ret (Inr arch)))"

text \<open>
  The statements of \<^verbatim>\<open>stopNeo4jCommunity\<close> after \<^verbatim>\<open>defer cleanup()\<close>; the function runs
  them and then the deferred \<^verbatim>\<open>cleanup\<close>, whatever they return.
\<close>

definition watchdogCmd :: "world \<Rightarrow> string" where
  "watchdogCmd w =
     ''nohup '' @ neo4jRemoteWatchdogBinary w @ '' --ready-file '' @ neo4jRemoteWatchdogReady w
       @ '' >'' @ neo4jRemoteWatchdogLog w @ '' 2>&1 &''"

definition stopNeo4jCommunity_deployed :: "world \<Rightarrow> string \<Rightarrow> string \<Rightarrow> error option io" where
  "stopNeo4jCommunity_deployed w pidStr localWatchdog =
     bnd (perform w (CopyTo ''database'' localWatchdog (neo4jRemoteWatchdogBinary w))) (\<lambda>r1.
     case failure r1 of
       Some err \<Rightarrow> ret (Some (Errorf ''failed to deploy watchdog binary: %w'' [ErrW err]))
     | None \<Rightarrow>
     bnd (perform w (Exec ''database'' [''chmod'', ''+x'', neo4jRemoteWatchdogBinary w] None)) (\<lambda>r2.
     case failure r2 of
       Some err \<Rightarrow> ret (Some (Errorf ''failed to mark watchdog executable: %w'' [ErrW err]))
     | None \<Rightarrow>
     bnd (perform w (Exec ''database''
            [''rm'', ''-f'', neo4jRemoteWatchdogReady w, neo4jRemoteWatchdogLog w] None)) (\<lambda>r3.
     bnd (whenSome (failure r3)
            (\<lambda>err. logf LDebug ''Could not clear watchdog markers: %v'' [ErrV err])) (\<lambda>_.
     bnd (perform w (Exec ''database'' [''sh'', ''-c'', watchdogCmd w] None)) (\<lambda>r4.
     case failure r4 of
       Some err \<Rightarrow> ret (Some (Errorf ''failed to start watchdog: %w'' [ErrW err]))
     | None \<Rightarrow>
     bnd (perform w (WaitForRemoteFile (neo4jRemoteWatchdogReady w) neo4jWatchdogInitTimeout)) (\<lambda>r5.
     case failure r5 of
       Some err \<Rightarrow> ret (Some (Errorf ''watchdog failed to initialize: %w'' [ErrW err]))
     | None \<Rightarrow>
     bnd (perform w (Exec ''database'' [''kill'', pidStr] None)) (\<lambda>r6.
     case failure r6 of
       Some err \<Rightarrow> ret (Some (Errorf ''failed to stop neo4j: %w'' [ErrW err]))
     | None \<Rightarrow>
     bnd (perform w (WaitForProcessStopped pidStr neo4jProcessStopTimeout)) (\<lambda>r7.
     case failure r7 of
       Some err \<Rightarrow> ret (Some err)
     | None \<Rightarrow> ret None))))))))"

definition stopNeo4jCommunity :: "world \<Rightarrow> string \<Rightarrow> error option io" where
  "stopNeo4jCommunity w pidStr =
     bnd (perform w (Exec ''database'' [''mkdir'', ''-p'', neo4jRemoteWorkDir w] None)) (\<lambda>r1.
     case failure r1 of
       Some err \<Rightarrow> ret (Some (Errorf ''failed to prepare remote work directory: %w'' [ErrW err]))
     | None \<Rightarrow>
     bnd (detectNeo4jArchitecture w) (\<lambda>a.
     case a of
       Inl err \<Rightarrow> ret (Some err)
     | Inr arch \<Rightarrow>
     (case selectWatchdogBinary w arch of
       Inl err \<Rightarrow> ret (Some err)
     | Inr watchdogBytes \<Rightarrow>
     bnd (perform w (WriteEmbeddedWatchdog watchdogBytes)) (\<lambda>r2.
     case failure r2 of
       Some err \<Rightarrow> ret (Some err)
     | None \<Rightarrow>
     bnd (stopNeo4jCommunity_deployed w pidStr (stdout r2)) (\<lambda>res.
     bnd (perform w (Cleanup (stdout r2))) (\<lambda>_.
     ret res))))))"

text \<open>
  \<^verbatim>\<open>backupNeo4jEnterprise\<close>: the deferred removal of the temporary directory runs once
  the directory has been created, whatever the statements after it return.
\<close>

definition backupNeo4jEnterprise :: "world \<Rightarrow> Configuration \<Rightarrow> string \<Rightarrow> string \<Rightarrow> error option io" where
  "backupNeo4jEnterprise w cfg backupDir backupMetadata =
     bnd (perform w (Exec ''database'' [''mkdir'', ''-p'', neo4jTempBackupDir] None)) (\<lambda>r1.
     case failure r1 of
       Some err \<Rightarrow> ret (Some (Errorf ''failed to create backup directory: %w'' [ErrW err]))
     | None \<Rightarrow>
     bnd (bnd (perform w (Exec ''database''
                 [''neo4j-admin'', ''database'', ''backup'', ''--expand-commands'',
                  ''--include-metadata='' @ backupMetadata, ''--to-path='' @ neo4jTempBackupDir,
                  Neo4jDatabase cfg] None)) (\<lambda>r2.
          case failure r2 of
            Some err \<Rightarrow> ret (Some (Errorf ''failed to backup neo4j: %w\<newline>Output: %v''
                                     [ErrW err, Str (stdout r2)]))
          | None \<Rightarrow>
          bnd (perform w (CopyFrom ''database'' neo4jTempBackupDir
                 (filepath_Join w [backupDir, ''database'']))) (\<lambda>r3.
          case failure r3 of
            Some err \<Rightarrow> ret (Some (Errorf ''failed to copy database backup: %w'' [ErrW err]))
          | None \<Rightarrow> ret None))) (\<lambda>res.
     bnd (perform w (Exec ''database'' [''rm'', ''-rf'', neo4jTempBackupDir] None)) (\<lambda>r4.
     bnd (whenSome (failure r4)
            (\<lambda>err. logf LWarn ''Failed to remove temporary Neo4j backup directory: %v'' [ErrV err])) (\<lambda>_.
     ret res))))"

text \<open>
  \<^verbatim>\<open>backupNeo4jCommunity\<close> has the named result \<^verbatim>\<open>retErr\<close>. Its deferred function is
  registered after \<^verbatim>\<open>stopNeo4jCommunity\<close> has returned \<^verbatim>\<open>nil\<close>; it receives the value
  being returned and gives the value the caller sees.
\<close>

definition backupNeo4jCommunity_dump :: "world \<Rightarrow> Configuration \<Rightarrow> string \<Rightarrow> error option io" where
  "backupNeo4jCommunity_dump w cfg backupDir =
     bnd (perform w (Exec ''database'' [''mkdir'', ''-p'', neo4jRemoteWorkDir w] None)) (\<lambda>r1.
     case failure r1 of
       Some err \<Rightarrow> ret (Some (Errorf ''failed to prepare remote dump directory: %w'' [ErrW err]))
     | None \<Rightarrow>
     bnd (perform w (MkdirAll (filepath_Join w [backupDir, ''database'']))) (\<lambda>r2.
     case failure r2 of
       Some err \<Rightarrow> ret (Some (Errorf ''failed to prepare local dump directory: %w'' [ErrW err]))
     | None \<Rightarrow>
     bnd (perform w (Exec ''database''
            [''neo4j-admin'', ''database'', ''dump'', ''--overwrite-destination=true'',
             ''--to-path='' @ neo4jRemoteWorkDir w, Neo4jDatabase cfg] None)) (\<lambda>r3.
     case failure r3 of
       Some dumpErr \<Rightarrow> ret (Some (Errorf ''failed to dump neo4j database: %w\<newline>Output: %v''
                                   [ErrW dumpErr, Str (stdout r3)]))
     | None \<Rightarrow>
     bnd (perform w (CopyFrom ''database''
            (neo4jRemoteWorkDir w @ ''/'' @ (Neo4jDatabase cfg @ ''.dump''))
            (filepath_Join w [filepath_Join w [backupDir, ''database''],
                              Neo4jDatabase cfg @ ''.dump'']))) (\<lambda>r4.
     case failure r4 of
       Some err \<Rightarrow> ret (Some (Errorf ''failed to copy neo4j dump: %w'' [ErrW err]))
     | None \<Rightarrow> ret None))))"

definition backupNeo4jCommunity_deferred :: "world \<Rightarrow> string \<Rightarrow> error option \<Rightarrow> error option io" where
  "backupNeo4jCommunity_deferred w pidStr retErr =
     bnd (perform w (Exec ''database''
            [''rm'', ''-f'', neo4jRemoteWatchdogBinary w, neo4jRemoteWatchdogReady w,
             neo4jRemoteWatchdogLog w] None)) (\<lambda>r1.
     bnd (whenSome (failure r1)
            (\<lambda>err. logf LDebug ''Failed to remove watchdog artifacts: %v'' [ErrV err])) (\<lambda>_.
     bnd (perform w (Exec ''database'' [''kill'', ''-CONT'', pidStr] None)) (\<lambda>r2.
     case failure r2 of
       Some err \<Rightarrow>
         bnd (logf LError ''Failed to send SIGCONT to neo4j (pid %s): %v'' [Str pidStr, ErrV err]) (\<lambda>_.
         ret (if retErr = None
              then Some (Errorf ''failed to resume neo4j process: %w'' [ErrW err])
              else retErr))
     | None \<Rightarrow> ret retErr)))"

definition backupNeo4jCommunity :: "world \<Rightarrow> Configuration \<Rightarrow> string \<Rightarrow> error option io" where
  "backupNeo4jCommunity w cfg backupDir =
     bnd (readNeo4jPID w) (\<lambda>p.
     case p of
       Inl err \<Rightarrow> ret (Some err)
     | Inr pidStr \<Rightarrow>
     bnd (stopNeo4jCommunity w pidStr) (\<lambda>s.
     case s of
       Some err \<Rightarrow> ret (Some err)
     | None \<Rightarrow>
     bnd (backupNeo4jCommunity_dump w cfg backupDir) (\<lambda>retErr.
     backupNeo4jCommunity_deferred w pidStr retErr)))"

definition backupDatabase :: "world \<Rightarrow> Configuration \<Rightarrow> string \<Rightarrow> string \<Rightarrow> string \<Rightarrow> error option io" where
  "backupDatabase w cfg backupDir backupMetadata neo4jEdition =
     (if strings_ToLower w neo4jEdition = neo4jEditionCommunity
      then backupNeo4jCommunity w cfg backupDir
      else backupNeo4jEnterprise w cfg backupDir backupMetadata)"

definition restoreNeo4jEnterprise :: "world \<Rightarrow> Configuration \<Rightarrow> bool \<Rightarrow> error option io" where
  "restoreNeo4jEnterprise w cfg restoreMigrateFormat =
     (let opts = Some \<lparr>User = ''neo4j'', Env = []\<rparr> in
     bnd (perform w (Exec ''database''
            [''cypher-shell'', ''-u'', Neo4jUsername cfg, ''-p'' @ Neo4jPassword cfg, ''-d'', ''system'',
             ''stop database '' @ Neo4jDatabase cfg] None)) (\<lambda>r1.
     case failure r1 of
       Some err \<Rightarrow> ret (Some (Errorf ''failed to stop neo4j database: %w'' [ErrW err]))
     | None \<Rightarrow>
     bnd (perform w (Exec ''database''
            [''neo4j-admin'', ''database'', ''restore'', ''--expand-commands'',
             ''--overwrite-destination=true'', ''--from-path='' @ neo4jTempBackupDir,
             Neo4jDatabase cfg] opts)) (\<lambda>r2.
     case failure r2 of
       Some err \<Rightarrow> ret (Some (Errorf ''failed to restore neo4j: %w\<newline>Output: %v''
                                [ErrW err, Str (stdout r2)]))
     | None \<Rightarrow>
     bnd (if restoreMigrateFormat
          then bnd (perform w (Exec ''database''
                      [''neo4j-admin'', ''database'', ''migrate'', ''--expand-commands'',
                       ''--to-format=block'', Neo4jDatabase cfg] opts)) (\<lambda>r3.
               case failure r3 of
                 Some err \<Rightarrow> ret (Some (Errorf
                     ''failed to migrate neo4j to block format: %w\<newline>Output: %v''
                     [ErrW err, Str (stdout r3)]))
               | None \<Rightarrow> ret None)
          else ret None) (\<lambda>m.
     case m of
       Some err \<Rightarrow> ret (Some err)
     | None \<Rightarrow>
     bnd (perform w (Exec ''database''
            [''sh'', ''-c'',
             ''cat '' @ neo4jMetadataScriptPath @ '' | cypher-shell -u '' @ Neo4jUsername cfg
               @ '' -p'' @ Neo4jPassword cfg @ '' -d system --param '' @ [CHR 0x22]
               @ ''database => '' @ [CHR 0x27] @ Neo4jDatabase cfg @ [CHR 0x27, CHR 0x22]] opts)) (\<lambda>r4.
     case failure r4 of
       Some err \<Rightarrow> ret (Some (Errorf ''failed to restore neo4j metadata: %w\<newline>Output: %v''
                                [ErrW err, Str (stdout r4)]))
     | None \<Rightarrow>
     bnd (perform w (Exec ''database''
            [''cypher-shell'', ''-u'', Neo4jUsername cfg, ''-p'' @ Neo4jPassword cfg, ''-d'', ''system'',
             ''start database '' @ Neo4jDatabase cfg] None)) (\<lambda>r5.
     case failure r5 of
       Some err \<Rightarrow> ret (Some (Errorf ''failed to start neo4j database: %w'' [ErrW err]))
     | None \<Rightarrow> ret None))))))"

definition restoreNeo4jCommunity_load :: "world \<Rightarrow> Configuration \<Rightarrow> bool \<Rightarrow> error option io" where
  "restoreNeo4jCommunity_load w cfg restoreMigrateFormat =
     (let opts = Some \<lparr>User = ''neo4j'', Env = []\<rparr> in
     bnd (perform w (Exec ''database''
            [''neo4j-admin'', ''database'', ''load'', ''--overwrite-destination=true'',
             ''--from-path='' @ neo4jTempBackupDir, Neo4jDatabase cfg] opts)) (\<lambda>r1.
     case failure r1 of
       Some err \<Rightarrow> ret (Some (Errorf ''failed to load neo4j dump: %w\<newline>Output: %v''
                                [ErrW err, Str (stdout r1)]))
     | None \<Rightarrow>
     (if restoreMigrateFormat
      then bnd (perform w (Exec ''database''
                  [''neo4j-admin'', ''database'', ''migrate'', ''--to-format=block'',
                   Neo4jDatabase cfg] opts)) (\<lambda>r2.
           case failure r2 of
             Some err \<Rightarrow> ret (Some (Errorf
                 ''failed to migrate neo4j to block format: %w\<newline>Output: %v''
                 [ErrW err, Str (stdout r2)]))
           | None \<Rightarrow> ret None)
      else ret None)))"

definition restoreNeo4jCommunity_deferred :: "world \<Rightarrow> string \<Rightarrow> error option \<Rightarrow> error option io" where
  "restoreNeo4jCommunity_deferred w pidStr retErr =
     bnd (perform w (Exec ''database'' [''rm'', ''-rf'', neo4jTempBackupDir] None)) (\<lambda>r0.
     bnd (whenSome (failure r0)
            (\<lambda>err. logf LWarn ''Failed to cleanup temporary Neo4j backup data: %v'' [ErrV err])) (\<lambda>_.
     bnd (perform w (Exec ''database''
            [''rm'', ''-f'', neo4jRemoteWatchdogBinary w, neo4jRemoteWatchdogReady w,
             neo4jRemoteWatchdogLog w] None)) (\<lambda>r1.
     bnd (whenSome (failure r1)
            (\<lambda>err. logf LDebug ''Failed to remove watchdog artifacts: %v'' [ErrV err])) (\<lambda>_.
     bnd (perform w (Exec ''database'' [''kill'', ''-CONT'', pidStr] None)) (\<lambda>r2.
     case failure r2 of
       Some err \<Rightarrow>
         bnd (logf LError ''Failed to send SIGCONT to neo4j (pid %s): %v'' [Str pidStr, ErrV err]) (\<lambda>_.
         ret (if retErr = None
              then Some (Errorf ''failed to resume neo4j process: %w'' [ErrW err])
              else retErr))
     | None \<Rightarrow> ret retErr)))))"

definition restoreNeo4jCommunity :: "world \<Rightarrow> Configuration \<Rightarrow> bool \<Rightarrow> error option io" where
  "restoreNeo4jCommunity w cfg restoreMigrateFormat =
     bnd (readNeo4jPID w) (\<lambda>p.
     case p of
       Inl err \<Rightarrow> ret (Some err)
     | Inr pidStr \<Rightarrow>
     bnd (stopNeo4jCommunity w pidStr) (\<lambda>s.
     case s of
       Some err \<Rightarrow> ret (Some err)
     | None \<Rightarrow>
     bnd (restoreNeo4jCommunity_load w cfg restoreMigrateFormat) (\<lambda>retErr.
     restoreNeo4jCommunity_deferred w pidStr retErr)))"

definition restoreNeo4j :: "world \<Rightarrow> Configuration \<Rightarrow> string \<Rightarrow> string \<Rightarrow> bool \<Rightarrow> error option io" where
  "restoreNeo4j w cfg workDir neo4jEdition restoreMigrateFormat =
     bnd (perform w (CopyTo ''database'' (filepath_Join w [workDir, ''backup'', ''database''])
            neo4jTempBackupDir)) (\<lambda>r1.
     case failure r1 of
       Some err \<Rightarrow> ret (Some (Errorf ''failed to copy backup to container: %w'' [ErrW err]))
     | None \<Rightarrow>
     bnd (bnd (perform w (Exec ''database''
                 [''chown'', ''-R'', ''neo4j:neo4j'', neo4jTempBackupDir] None)) (\<lambda>r2.
          case failure r2 of
            Some err \<Rightarrow> ret (Some (Errorf ''failed to change backup ownership: %w'' [ErrW err]))
          | None \<Rightarrow>
            (if strings_ToLower w neo4jEdition = neo4jEditionCommunity
             then restoreNeo4jCommunity w cfg restoreMigrateFormat
             else restoreNeo4jEnterprise w cfg restoreMigrateFormat))) (\<lambda>res.
     bnd (perform w (Exec ''database'' [''rm'', ''-rf'', neo4jTempBackupDir] None)) (\<lambda>r3.
     bnd (whenSome (failure r3)
            (\<lambda>err. logf LWarn
               ''Failed to cleanup temporary Neo4j backup data (this is expected for community restore method): %v''
               [ErrV err])) (\<lambda>_.
     ret res))))"

section \<open>The workflow-store dump and restore\<close>

definition backupTaskManagerDB :: "world \<Rightarrow> Configuration \<Rightarrow> string \<Rightarrow> error option io" where
  "backupTaskManagerDB w cfg backupDir =
     bnd (perform w (GetWritableTempDir ''task-manager-db'')) (\<lambda>r0.
     (let dumpFile = stdout r0 @ ''/infrahubops_prefect.dump'';
          opts = Some \<lparr>User = [], Env = [(''PGPASSWORD'', PostgresPassword cfg)]\<rparr> in
     bnd (perform w (Exec ''task-manager-db''
            [''pg_dump'', ''-Fc'', ''-h'', ''localhost'', ''-U'', PostgresUsername cfg,
             ''-d'', PostgresDatabase cfg, ''-f'', dumpFile] opts)) (\<lambda>r1.
     case failure r1 of
       Some err \<Rightarrow> ret (Some (Errorf ''failed to create postgresql dump: %w\<newline>Output: %v''
                                [ErrW err, Str (stdout r1)]))
     | None \<Rightarrow>
     bnd (bnd (perform w (CopyFrom ''task-manager-db'' dumpFile
                 (filepath_Join w [backupDir, ''prefect.dump'']))) (\<lambda>r2.
          case failure r2 of
            Some err \<Rightarrow> ret (Some (Errorf ''failed to copy postgresql dump: %w'' [ErrW err]))
          | None \<Rightarrow> ret None)) (\<lambda>res.
     bnd (perform w (Exec ''task-manager-db'' [''rm'', dumpFile] None)) (\<lambda>r3.
     bnd (whenSome (failure r3)
            (\<lambda>err. logf LWarn ''Failed to remove temporary postgres dump: %v'' [ErrV err])) (\<lambda>_.
     ret res))))))"

definition restorePostgreSQL :: "world \<Rightarrow> Configuration \<Rightarrow> string \<Rightarrow> error option io" where
  "restorePostgreSQL w cfg workDir =
     bnd (perform w (StartServices [''task-manager-db''])) (\<lambda>r0.
     case failure r0 of
       Some err \<Rightarrow> ret (Some (Errorf ''failed to start task-manager-db: %w'' [ErrW err]))
     | None \<Rightarrow>
     bnd (perform w (GetWritableTempDir ''task-manager-db'')) (\<lambda>r1.
     (let dumpFile = stdout r1 @ ''/infrahubops_prefect.dump'';
          opts = Some \<lparr>User = [], Env = [(''PGPASSWORD'', PostgresPassword cfg)]\<rparr> in
     bnd (perform w (CopyTo ''task-manager-db''
            (filepath_Join w [workDir, ''backup'', ''prefect.dump'']) dumpFile)) (\<lambda>r2.
     case failure r2 of
       Some err \<Rightarrow> ret (Some (Errorf ''failed to copy dump to container: %w'' [ErrW err]))
     | None \<Rightarrow>
     bnd (bnd (perform w (Exec ''task-manager-db''
                 [''pg_restore'', ''-h'', ''localhost'', ''-d'', ''postgres'', ''-U'',
                  PostgresUsername cfg, ''--clean'', ''--create'', dumpFile] opts)) (\<lambda>r3.
          case failure r3 of
            Some err \<Rightarrow> ret (Some (Errorf ''failed to restore postgresql: %w\<newline>Output: %v''
                                     [ErrW err, Str (stdout r3)]))
          | None \<Rightarrow> ret None)) (\<lambda>res.
     bnd (perform w (Exec ''task-manager-db'' [''rm'', dumpFile] None)) (\<lambda>r4.
     bnd (whenSome (failure r4)
            (\<lambda>err. logf LWarn ''Failed to remove temporary postgres dump: %v'' [ErrV err])) (\<lambda>_.
     ret res)))))))"

section \<open>The Kubernetes backend\<close>

record KubernetesBackend =
  config :: Configuration
  namespace :: string
  podCache :: "(string \<times> string) list"

text \<open>
  \<^verbatim>\<open>Detect\<close> returns its error and leaves the backend changed: the receiver is a pointer
  and \<^verbatim>\<open>config\<close> is shared, so the assignments are visible to the caller.
\<close>

definition Detect :: "world \<Rightarrow> KubernetesBackend \<Rightarrow> (error option \<times> KubernetesBackend) io" where
  "Detect w k =
     bnd (perform w (RunCommandQuiet ''kubectl'' [''version'', ''--client''])) (\<lambda>r1.
     case failure r1 of
       Some err \<Rightarrow> ret (Some (Errorf ''kubectl CLI not available: %w'' [ErrW err]), k)
     | None \<Rightarrow>
     bnd (perform w ListKubernetesNamespaces) (\<lambda>r2.
     case failure r2 of
       Some err \<Rightarrow> ret (Some err, k)
     | None \<Rightarrow>
     (let namespaces = items r2 in
      if K8sNamespace (config k) \<noteq> []
      then (let k1 = k\<lparr>namespace := K8sNamespace (config k)\<rparr> in
            bnd (perform w (RunCommand ''kubectl''
                   [''get'', ''pods'', ''-n'', namespace k1, ''-l'',
                    ''app.kubernetes.io/name=infrahub''])) (\<lambda>r3.
            case failure r3 of
              Some err \<Rightarrow> ret (Some (Errorf ''failed to verify namespace %s: %w''
                                       [Str (namespace k1), ErrW err]), k1)
            | None \<Rightarrow> ret (None, k1)))
      else (case namespaces of
              [] \<Rightarrow> ret (Some ErrEnvironmentNotFound, k)
            | [ns] \<Rightarrow> ret (None, k\<lparr>namespace := ns, config := (config k)\<lparr>K8sNamespace := ns\<rparr>\<rparr>)
            | _ \<Rightarrow> ret (Some (Errorf
                  ''multiple kubernetes namespaces found: %s (set INFRAHUB_K8S_NAMESPACE)''
                  [Str (strings_Join namespaces '', '')]), k)))))"

text \<open>
  The two jsonpath templates: in the Go source the braces hold a quoted backslash-n
  and a quoted semicolon.
\<close>

definition jsonpathPhase :: string where
  "jsonpathPhase =
     ''jsonpath={range .items[*]}{.status.phase}{'' @ [CHR 0x22, CHR 0x5C, CHR ''n'', CHR 0x22]
       @ ''}{end}''"

definition jsonpathNamePhase :: string where
  "jsonpathNamePhase =
     ''jsonpath={range .items[*]}{.metadata.name}{'' @ [CHR 0x22, CHR '';'', CHR 0x22]
       @ ''}{.status.phase}{'' @ [CHR 0x22, CHR 0x5C, CHR ''n'', CHR 0x22] @ ''}{end}''"

text \<open>
  The first loop of \<^verbatim>\<open>getPodStatuses\<close>: the selectors in order; a failed query or an empty
  answer moves on to the next selector. \<open>None\<close> means the loop ended without returning.
\<close>

fun getPodStatuses_selectors :: "world \<Rightarrow> string \<Rightarrow> string list \<Rightarrow> (string list option) io" where
  "getPodStatuses_selectors w ns [] t = (None, t)"
| "getPodStatuses_selectors w ns (selector # rest) t =
     (case perform w (RunCommand ''kubectl''
             [''get'', ''pods'', ''-n'', ns, ''-l'', selector, ''-o'', jsonpathPhase]) t of
        (r, t') \<Rightarrow>
          (case failure r of
             Some err \<Rightarrow> getPodStatuses_selectors w ns rest t'
           | None \<Rightarrow>
               (let statuses = nonEmptyLines w (stdout r) in
                if length statuses > 0 then (Some statuses, t')
                else getPodStatuses_selectors w ns rest t')))"

text \<open>The second loop: the lines \<^verbatim>\<open>name;phase\<close> of all pods, kept when the name contains the service.\<close>

fun getPodStatuses_lines :: "string \<Rightarrow> string list \<Rightarrow> string list \<Rightarrow> string list" where
  "getPodStatuses_lines service [] statuses = statuses"
| "getPodStatuses_lines service (line # rest) statuses =
     (if line = [] then getPodStatuses_lines service rest statuses
      else (let parts = strings_Split line (CHR '';'') in
            if length parts \<noteq> 2 then getPodStatuses_lines service rest statuses
            else if strings_Contains (parts ! 0) service
                 then getPodStatuses_lines service rest (statuses @ [parts ! 1])
                 else getPodStatuses_lines service rest statuses))"

definition getPodStatuses :: "world \<Rightarrow> KubernetesBackend \<Rightarrow> string \<Rightarrow> (error + string list) io" where
  "getPodStatuses w k service =
     bnd (getPodStatuses_selectors w (namespace k) (podSelectors w service)) (\<lambda>found.
     case found of
       Some statuses \<Rightarrow> ret (Inr statuses)
     | None \<Rightarrow>
     bnd (perform w (RunCommand ''kubectl''
            [''get'', ''pods'', ''-n'', namespace k, ''-o'', jsonpathNamePhase])) (\<lambda>r.
     case failure r of
       Some err \<Rightarrow> ret (Inl err)
     | None \<Rightarrow> ret (Inr (getPodStatuses_lines service (strings_Split (stdout r) (CHR 0x0A)) []))))"

fun anyRunning :: "string list \<Rightarrow> bool" where
  "anyRunning [] = False"
| "anyRunning (status # rest) = (if strings_EqualFold status ''Running'' then True else anyRunning rest)"

definition IsRunning :: "world \<Rightarrow> KubernetesBackend \<Rightarrow> string \<Rightarrow> (bool \<times> error option) io" where
  "IsRunning w k service =
     bnd (getPodStatuses w k service) (\<lambda>r.
     case r of
       Inl err \<Rightarrow> ret (False, Some err)
     | Inr statuses \<Rightarrow> ret (anyRunning statuses, None))"

section \<open>Errors and maps\<close>

text \<open>
  \<^verbatim>\<open>errors.Is\<close> follows the chain of wrapped errors: the \<^verbatim>\<open>%w\<close> operand of an
  \<^verbatim>\<open>Errorf\<close>, the inner error of a \<^verbatim>\<open>NumError\<close>. \<^verbatim>\<open>os.IsNotExist\<close> looks at the error
  itself.
\<close>

fun errors_Is :: "error \<Rightarrow> error \<Rightarrow> bool" and unwrapsTo :: "operand list \<Rightarrow> error \<Rightarrow> bool" where
  "errors_Is (Errorf f ops) target = (Errorf f ops = target \<or> unwrapsTo ops target)"
| "errors_Is (NumError fn num e) target = (NumError fn num e = target \<or> errors_Is e target)"
| "errors_Is e target = (e = target)"
| "unwrapsTo [] target = False"
| "unwrapsTo (ErrW e # ops) target = errors_Is e target"
| "unwrapsTo (x # ops) target = unwrapsTo ops target"

definition os_IsNotExist :: "error option \<Rightarrow> bool" where
  "os_IsNotExist err = (err = Some ErrNotExist)"

text \<open>
  A Go map with string keys, as the list of its entries. \<open>setKey\<close> is the assignment
  \<^verbatim>\<open>m[k] = v\<close>, \<open>map_of\<close> the lookup. A \<^verbatim>\<open>range\<close> over a map visits the entries in an
  order Go does not fix: the loops below take the entries in the order of the list, and
  the theorems hold for every order.
\<close>

fun setKey :: "string \<Rightarrow> string \<Rightarrow> (string \<times> string) list \<Rightarrow> (string \<times> string) list" where
  "setKey k v [] = [(k, v)]"
| "setKey k v ((k', v') # m) = (if k' = k then (k, v) # m else (k', v') # setKey k v m)"

section \<open>CreateBackup\<close>

text \<open>
  \<^verbatim>\<open>CreateBackup\<close> and \<^verbatim>\<open>RestoreBackup\<close> are embedded from the revision of backup.go whose
  whole body is in the sources (the Go file listed after S3\_BACKUP.md): there the
  edition reconciliation and the checksum computation and validation are written out in
  the two functions. The revision in src/internal/app/backup.go hands these three
  blocks to \<^verbatim>\<open>ResolveRestoreEdition\<close>, \<^verbatim>\<open>calculateBackupChecksums\<close> and
  \<^verbatim>\<open>validateBackupChecksums\<close>, whose bodies are not in the sources.

  The walk function of \<^verbatim>\<open>filepath.Walk\<close>, applied to the visited entries in order: an
  error handed to it ends the walk; for a file the digest is stored under the path
  relative to the backup directory when \<^verbatim>\<open>calculateSHA256\<close> succeeds.
\<close>

fun CreateBackup_walk ::
  "world \<Rightarrow> string \<Rightarrow> (string \<times> bool \<times> error option) list \<Rightarrow> (string \<times> string) list
     \<Rightarrow> (error + (string \<times> string) list) io" where
  "CreateBackup_walk w backupDir [] checksums t = (Inr checksums, t)"
| "CreateBackup_walk w backupDir ((path, isDir, err) # rest) checksums t =
     (case err of
        Some e \<Rightarrow> (Inl e, t)
      | None \<Rightarrow>
          if \<not> isDir
          then (case sha256 w path t of
                  (Inr digest, t') \<Rightarrow>
                    CreateBackup_walk w backupDir rest
                      (setKey (filepath_Rel w backupDir path) digest checksums) t'
                | (Inl e, t') \<Rightarrow> CreateBackup_walk w backupDir rest checksums t')
          else CreateBackup_walk w backupDir rest checksums t)"

text \<open>The statements under \<^verbatim>\<open>// Calculate checksums for backup files\<close>, up to the filled map.\<close>

definition CreateBackup_checksums ::
  "world \<Rightarrow> string \<Rightarrow> bool \<Rightarrow> (error + (string \<times> string) list) io" where
  "CreateBackup_checksums w backupDir excludeTaskManager =
     (let neo4jDir = filepath_Join w [backupDir, ''database''];
          prefectPath = filepath_Join w [backupDir, ''prefect.dump''] in
     bnd (\<lambda>t. (filepath_Walk w neo4jDir, t @ [FilepathWalk neo4jDir])) (\<lambda>visits.
     bnd (CreateBackup_walk w backupDir visits []) (\<lambda>walked.
     case walked of
       Inl err \<Rightarrow> ret (Inl (Errorf ''failed to calculate Neo4j backup checksums: %w'' [ErrW err]))
     | Inr checksums \<Rightarrow>
       (if \<not> excludeTaskManager
        then bnd (stat w prefectPath) (\<lambda>st.
             case st of
               None \<Rightarrow>
                 bnd (sha256 w prefectPath) (\<lambda>d.
                 case d of
                   Inr digest \<Rightarrow> ret (Inr (setKey ''prefect.dump'' digest checksums))
                 | Inl err \<Rightarrow> ret (Inl (Errorf ''failed to calculate Prefect DB checksum: %w''
                                          [ErrW err])))
             | Some err \<Rightarrow>
                 if \<not> errors_Is err ErrNotExist
                 then ret (Inl (Errorf ''could not access Prefect DB dump: %w'' [ErrW err]))
                 else ret (Inr checksums))
        else ret (Inr checksums)))))"

text \<open>The statements of \<^verbatim>\<open>CreateBackup\<close> after \<^verbatim>\<open>defer os.RemoveAll(workDir)\<close>.\<close>

definition CreateBackup_staged ::
  "world \<Rightarrow> Configuration \<Rightarrow> string \<Rightarrow> bool \<Rightarrow> string \<Rightarrow> string \<Rightarrow> string \<Rightarrow> string
     \<Rightarrow> error option io" where
  "CreateBackup_staged w cfg neo4jMetadata excludeTaskManager backupFilename workDir version edition =
     (let backupPath = filepath_Join w [BackupDir cfg, backupFilename];
          backupDir = filepath_Join w [workDir, ''backup''] in
     bnd (perform w (MkdirAll backupDir)) (\<lambda>r1.
     case failure r1 of
       Some err \<Rightarrow> ret (Some (Errorf ''failed to create backup directory: %w'' [ErrW err]))
     | None \<Rightarrow>
     bnd (perform w (MkdirAll (BackupDir cfg))) (\<lambda>r2.
     case failure r2 of
       Some err \<Rightarrow> ret (Some (Errorf ''failed to create backup parent directory: %w'' [ErrW err]))
     | None \<Rightarrow>
     (let backupID = strings_TrimSuffix backupFilename ''.tar.gz'';
          metadata = createBackupMetadata w backupID (\<not> excludeTaskManager) version edition in
     bnd (backupDatabase w cfg backupDir neo4jMetadata edition) (\<lambda>db.
     case db of
       Some err \<Rightarrow> ret (Some err)
     | None \<Rightarrow>
     bnd (if \<not> excludeTaskManager then backupTaskManagerDB w cfg backupDir else ret None) (\<lambda>tm.
     case tm of
       Some err \<Rightarrow> ret (Some err)
     | None \<Rightarrow>
     bnd (CreateBackup_checksums w backupDir excludeTaskManager) (\<lambda>cs.
     case cs of
       Inl err \<Rightarrow> ret (Some err)
     | Inr checksums \<Rightarrow>
     (let metadata1 = (if length checksums > 0 then metadata\<lparr>Checksums := checksums\<rparr>
                       else metadata) in
     case json_MarshalIndent w metadata1 of
       Inl err \<Rightarrow> ret (Some (Errorf ''failed to marshal metadata: %w'' [ErrW err]))
     | Inr metadataBytes \<Rightarrow>
     bnd (perform w (WriteFile (filepath_Join w [backupDir, ''backup_information.json''])
            metadataBytes)) (\<lambda>r3.
     case failure r3 of
       Some err \<Rightarrow> ret (Some (Errorf ''failed to write metadata: %w'' [ErrW err]))
     | None \<Rightarrow>
     bnd (perform w (CreateTarball backupPath workDir ''backup/'')) (\<lambda>r4.
     case failure r4 of
       Some err \<Rightarrow> ret (Some (Errorf ''failed to create archive: %w'' [ErrW err]))
     | None \<Rightarrow>
     bnd (stat w backupPath) (\<lambda>_.
     ret None)))))))))))"

text \<open>
  The statements from \<^verbatim>\<open>generateBackupFilename\<close> on; the deferred \<^verbatim>\<open>os.RemoveAll\<close> runs
  once the temporary directory exists.
\<close>

definition CreateBackup_quiesced ::
  "world \<Rightarrow> Configuration \<Rightarrow> string \<Rightarrow> bool \<Rightarrow> string \<Rightarrow> string \<Rightarrow> error option io" where
  "CreateBackup_quiesced w cfg neo4jMetadata excludeTaskManager version edition =
     bnd (perform w GenerateBackupFilename) (\<lambda>r1.
     bnd (perform w (MkdirTemp ''infrahub_backup_*'')) (\<lambda>r2.
     case failure r2 of
       Some err \<Rightarrow> ret (Some (Errorf ''failed to create temp directory: %w'' [ErrW err]))
     | None \<Rightarrow>
     bnd (CreateBackup_staged w cfg neo4jMetadata excludeTaskManager (stdout r1) (stdout r2)
            version edition) (\<lambda>res.
     bnd (perform w (RemoveAll (stdout r2))) (\<lambda>_.
     ret res))))"

text \<open>The deferred restart of the services that were stopped for a community backup.\<close>

definition CreateBackup_deferred :: "world \<Rightarrow> string list \<Rightarrow> error option \<Rightarrow> error option io" where
  "CreateBackup_deferred w servicesToRestart retErr =
     (if length servicesToRestart = 0 then ret retErr
      else bnd (perform w (StartAppContainers servicesToRestart)) (\<lambda>r.
           case failure r of
             Some startErr \<Rightarrow>
               bnd (logf LError ''Failed to restart services after backup: %v'' [ErrV startErr]) (\<lambda>_.
               ret (if retErr = None
                    then Some (Errorf ''failed to restart services after backup: %w'' [ErrW startErr])
                    else retErr))
           | None \<Rightarrow> ret retErr))"

definition CreateBackup :: "world \<Rightarrow> Configuration \<Rightarrow> bool \<Rightarrow> string \<Rightarrow> bool \<Rightarrow> error option io" where
  "CreateBackup w cfg force neo4jMetadata excludeTaskManager =
     bnd (perform w CheckPrerequisites) (\<lambda>r1.
     case failure r1 of
       Some err \<Rightarrow> ret (Some err)
     | None \<Rightarrow>
     bnd (perform w DetectEnvironment) (\<lambda>r2.
     case failure r2 of
       Some err \<Rightarrow> ret (Some err)
     | None \<Rightarrow>
     bnd (perform w DetectNeo4jEdition) (\<lambda>r3.
     bnd (whenSome (failure r3)
            (\<lambda>editionErr. logf LWarn ''Could not determine Neo4j edition: %v'' [ErrV editionErr])) (\<lambda>_.
     (let edition = stdout r3;
          isCommunityEdition = strings_EqualFold edition neo4jEditionCommunity in
     bnd (if isCommunityEdition then bnd (perform w (Sleep (10 * second))) (\<lambda>_. ret ())
          else ret ()) (\<lambda>_.
     bnd (perform w GetInfrahubVersion) (\<lambda>r4.
     bnd (if \<not> force then bnd (perform w WaitForRunningTasks) (\<lambda>r. ret (failure r))
          else ret None) (\<lambda>tasks.
     case tasks of
       Some err \<Rightarrow> ret (Some err)
     | None \<Rightarrow>
       (if isCommunityEdition
        then bnd (perform w StopAppContainers) (\<lambda>r5.
             case failure r5 of
               Some stopErr \<Rightarrow>
                 bnd (if length (items r5) > 0
                      then bnd (perform w (StartAppContainers (items r5))) (\<lambda>r6.
                           whenSome (failure r6)
                             (\<lambda>startErr. logf LWarn
                                ''Failed to restart services after stop error: %v'' [ErrV startErr]))
                      else ret ()) (\<lambda>_.
                 ret (Some (Errorf ''failed to stop services for Neo4j Community backup: %w''
                              [ErrW stopErr])))
             | None \<Rightarrow>
                 bnd (CreateBackup_quiesced w cfg neo4jMetadata excludeTaskManager (stdout r4)
                        edition) (\<lambda>retErr.
                 CreateBackup_deferred w (items r5) retErr))
        else CreateBackup_quiesced w cfg neo4jMetadata excludeTaskManager (stdout r4)
               edition)))))))))"

section \<open>RestoreBackup\<close>

text \<open>Up to the temporary directory: the result is its path.\<close>

definition RestoreBackup_open :: "world \<Rightarrow> string \<Rightarrow> (error + string) io" where
  "RestoreBackup_open w backupFile =
     bnd (stat w backupFile) (\<lambda>st.
     if os_IsNotExist st then ret (Inl (Errorf ''backup file not found: %s'' [Str backupFile]))
     else
     bnd (perform w CheckPrerequisites) (\<lambda>r1.
     case failure r1 of
       Some err \<Rightarrow> ret (Inl err)
     | None \<Rightarrow>
     bnd (perform w DetectEnvironment) (\<lambda>r2.
     case failure r2 of
       Some err \<Rightarrow> ret (Inl err)
     | None \<Rightarrow>
     bnd (perform w (MkdirTemp ''infrahub_restore_*'')) (\<lambda>r3.
     case failure r3 of
       Some err \<Rightarrow> ret (Inl (Errorf ''failed to create temp directory: %w'' [ErrW err]))
     | None \<Rightarrow> ret (Inr (stdout r3))))))"

text \<open>Extraction, and the metadata read from the extracted archive.\<close>

definition RestoreBackup_metadata :: "world \<Rightarrow> string \<Rightarrow> string \<Rightarrow> (error + BackupMetadata) io" where
  "RestoreBackup_metadata w backupFile workDir =
     bnd (perform w (ExtractTarball backupFile workDir)) (\<lambda>r1.
     case failure r1 of
       Some err \<Rightarrow> ret (Inl (Errorf ''failed to extract backup: %w'' [ErrW err]))
     | None \<Rightarrow>
     (let metadataPath = filepath_Join w [workDir, ''backup'', ''backup_information.json''] in
     bnd (stat w metadataPath) (\<lambda>st.
     if os_IsNotExist st then ret (Inl (Errorf ''invalid backup file: missing metadata'' []))
     else
     bnd (readFile w metadataPath) (\<lambda>rd.
     case rd of
       Inl err \<Rightarrow> ret (Inl (Errorf ''failed to read metadata: %w'' [ErrW err]))
     | Inr metadataBytes \<Rightarrow>
       (case json_Unmarshal w metadataBytes of
          Inl err \<Rightarrow> ret (Inl (Errorf ''failed to parse metadata: %w'' [ErrW err]))
        | Inr metadata \<Rightarrow> ret (Inr metadata))))))"

text \<open>The reconciliation of the recorded edition with the detected one.\<close>

definition RestoreBackup_edition :: "world \<Rightarrow> BackupMetadata \<Rightarrow> (error + string) io" where
  "RestoreBackup_edition w metadata =
     (let neo4jEdition = strings_ToLower w (Neo4jEdition metadata) in
     bnd (perform w DetectNeo4jEdition) (\<lambda>r.
     case failure r of
       Some err \<Rightarrow>
         bnd (logf LWarn
                ''Could not detect Neo4j edition during restore; defaulting to community workflow: %v''
                [ErrV err]) (\<lambda>_.
         ret (Inr neo4jEditionCommunity))
     | None \<Rightarrow>
         (let detectedEdition = stdout r in
          if neo4jEdition = neo4jEditionCommunity
             \<and> strings_ToLower w detectedEdition = neo4jEditionEnterprise
          then ret (Inr neo4jEditionCommunity)
          else if neo4jEdition = neo4jEditionEnterprise
                  \<and> strings_ToLower w detectedEdition = neo4jEditionCommunity
          then ret (Inl (Errorf ''cannot restore Enterprise backup on Community edition Neo4j'' []))
          else ret (Inr (strings_ToLower w detectedEdition)))))"

text \<open>The loop over \<^verbatim>\<open>metadata.Checksums\<close> that validates the database files.\<close>

fun RestoreBackup_checksums :: "world \<Rightarrow> string \<Rightarrow> (string \<times> string) list \<Rightarrow> error option io" where
  "RestoreBackup_checksums w workDir [] t = (None, t)"
| "RestoreBackup_checksums w workDir ((relPath, expectedSum) # rest) t =
     (if relPath = ''prefect.dump'' then RestoreBackup_checksums w workDir rest t
      else (case stat w (filepath_Join w [workDir, ''backup'', relPath]) t of
              (Some err, t1) \<Rightarrow> (Some (Errorf ''missing backup file: %s'' [Str relPath]), t1)
            | (None, t1) \<Rightarrow>
                (case sha256 w (filepath_Join w [workDir, ''backup'', relPath]) t1 of
                   (Inl err, t2) \<Rightarrow>
                     (Some (Errorf ''failed to calculate checksum for %s: %w''
                              [Str relPath, ErrW err]), t2)
                 | (Inr digest, t2) \<Rightarrow>
                     if digest \<noteq> expectedSum
                     then (Some (Errorf ''checksum mismatch for %s: expected %s, got %s''
                                   [Str relPath, Str expectedSum, Str digest]), t2)
                     else RestoreBackup_checksums w workDir rest t2)))"

text \<open>From \<^verbatim>\<open>// Wipe transient data\<close> to the end.\<close>

definition RestoreBackup_apply ::
  "world \<Rightarrow> Configuration \<Rightarrow> string \<Rightarrow> string \<Rightarrow> bool \<Rightarrow> bool \<Rightarrow> error option io" where
  "RestoreBackup_apply w cfg workDir neo4jEdition validatePrefect restoreMigrateFormat =
     bnd (perform w WipeTransientData) (\<lambda>_.
     bnd (perform w StopAppContainers) (\<lambda>r1.
     case failure r1 of
       Some err \<Rightarrow> ret (Some err)
     | None \<Rightarrow>
     bnd (if validatePrefect then restorePostgreSQL w cfg workDir else ret None) (\<lambda>pg.
     case pg of
       Some err \<Rightarrow> ret (Some err)
     | None \<Rightarrow>
     bnd (perform w RestartDependencies) (\<lambda>r2.
     case failure r2 of
       Some err \<Rightarrow> ret (Some err)
     | None \<Rightarrow>
     bnd (restoreNeo4j w cfg workDir neo4jEdition restoreMigrateFormat) (\<lambda>db.
     case db of
       Some err \<Rightarrow> ret (Some err)
     | None \<Rightarrow>
     bnd (perform w (StartServices [''infrahub-server'', ''task-worker''])) (\<lambda>r3.
     case failure r3 of
       Some err \<Rightarrow> ret (Some (Errorf ''failed to restart infrahub services: %w'' [ErrW err]))
     | None \<Rightarrow> ret None))))))"

text \<open>
  From the flags \<^verbatim>\<open>shouldRestoreTaskManager\<close> and \<^verbatim>\<open>validatePrefect\<close> on: the check that
  an included dump is present, the validation of its digest, then the restore itself.
\<close>

definition RestoreBackup_validated ::
  "world \<Rightarrow> Configuration \<Rightarrow> string \<Rightarrow> BackupMetadata \<Rightarrow> string \<Rightarrow> bool \<Rightarrow> bool \<Rightarrow> bool \<Rightarrow> bool
     \<Rightarrow> error option io" where
  "RestoreBackup_validated w cfg workDir metadata neo4jEdition taskManagerIncluded prefectExists
       excludeTaskManager restoreMigrateFormat =
     (let prefectPath = filepath_Join w [workDir, ''backup'', ''prefect.dump''];
          shouldRestoreTaskManager = (taskManagerIncluded \<and> \<not> excludeTaskManager);
          validatePrefect = (shouldRestoreTaskManager \<and> prefectExists) in
      if taskManagerIncluded \<and> \<not> prefectExists \<and> \<not> excludeTaskManager
      then ret (Some (Errorf
             ''backup metadata includes task manager database but prefect.dump is missing'' []))
      else
      bnd (if validatePrefect
           then (case map_of (Checksums metadata) ''prefect.dump'' of
                   None \<Rightarrow> ret (Some (Errorf ''missing checksum for prefect.dump in metadata'' []))
                 | Some expectedSum \<Rightarrow>
                     bnd (sha256 w prefectPath) (\<lambda>d.
                     case d of
                       Inl err \<Rightarrow> ret (Some (Errorf
                           ''failed to calculate checksum for prefect.dump: %w'' [ErrW err]))
                     | Inr digest \<Rightarrow>
                         if digest \<noteq> expectedSum
                         then ret (Some (Errorf
                                ''checksum mismatch for prefect.dump: expected %s, got %s''
                                [Str expectedSum, Str digest]))
                         else ret None))
           else ret None) (\<lambda>v.
      case v of
        Some err \<Rightarrow> ret (Some err)
      | None \<Rightarrow>
          RestoreBackup_apply w cfg workDir neo4jEdition validatePrefect restoreMigrateFormat))"

text \<open>From the edition reconciliation on, with the metadata loaded.\<close>

definition RestoreBackup_loaded ::
  "world \<Rightarrow> Configuration \<Rightarrow> string \<Rightarrow> BackupMetadata \<Rightarrow> bool \<Rightarrow> bool \<Rightarrow> error option io" where
  "RestoreBackup_loaded w cfg workDir metadata excludeTaskManager restoreMigrateFormat =
     bnd (RestoreBackup_edition w metadata) (\<lambda>e.
     case e of
       Inl err \<Rightarrow> ret (Some err)
     | Inr neo4jEdition \<Rightarrow>
     (let taskManagerIncluded =
            (if ''task-manager-db'' \<in> set (Components metadata) then True
             else (case map_of (Checksums metadata) ''prefect.dump'' of
                     Some _ \<Rightarrow> True
                   | None \<Rightarrow> False)) in
     bnd (RestoreBackup_checksums w workDir (Checksums metadata)) (\<lambda>c.
     case c of
       Some err \<Rightarrow> ret (Some err)
     | None \<Rightarrow>
     bnd (stat w (filepath_Join w [workDir, ''backup'', ''prefect.dump''])) (\<lambda>st.
     case st of
       None \<Rightarrow>
         RestoreBackup_validated w cfg workDir metadata neo4jEdition taskManagerIncluded True
           excludeTaskManager restoreMigrateFormat
     | Some err \<Rightarrow>
         if \<not> errors_Is err ErrNotExist
         then ret (Some (Errorf ''failed to access prefect.dump: %w'' [ErrW err]))
         else RestoreBackup_validated w cfg workDir metadata neo4jEdition taskManagerIncluded False
                excludeTaskManager restoreMigrateFormat))))"

definition RestoreBackup :: "world \<Rightarrow> Configuration \<Rightarrow> string \<Rightarrow> bool \<Rightarrow> bool \<Rightarrow> error option io" where
  "RestoreBackup w cfg backupFile excludeTaskManager restoreMigrateFormat =
     bnd (RestoreBackup_open w backupFile) (\<lambda>opened.
     case opened of
       Inl err \<Rightarrow> ret (Some err)
     | Inr workDir \<Rightarrow>
     bnd (bnd (RestoreBackup_metadata w backupFile workDir) (\<lambda>m.
          case m of
            Inl err \<Rightarrow> ret (Some err)
          | Inr metadata \<Rightarrow>
              RestoreBackup_loaded w cfg workDir metadata excludeTaskManager
                restoreMigrateFormat)) (\<lambda>res.
     bnd (perform w (RemoveAll workDir)) (\<lambda>_.
     ret res)))"

section \<open>Properties of runs\<close>

text \<open>
  \<open>yields P Q m\<close>: from every trace, \<open>m\<close> only appends events, each of them satisfies
  \<open>P\<close>, and the value it returns satisfies \<open>Q\<close>.
\<close>

definition yields :: "(event \<Rightarrow> bool) \<Rightarrow> ('a \<Rightarrow> bool) \<Rightarrow> 'a io \<Rightarrow> bool" where
  "yields P Q m = (\<forall>t. \<exists>new. snd (m t) = t @ new \<and> (\<forall>e \<in> set new. P e) \<and> Q (fst (m t)))"

text \<open>A \<^verbatim>\<open>kill\<close> command, with any signal, in any service.\<close>

definition isKill :: "event \<Rightarrow> bool" where
  "isKill e = (case e of Exec svc (cmd # args) opts \<Rightarrow> cmd = ''kill'' | _ \<Rightarrow> False)"

definition isLog :: "event \<Rightarrow> bool" where
  "isLog e = (case e of Log l f ops \<Rightarrow> True | _ \<Rightarrow> False)"

definition isDigest :: "event \<Rightarrow> bool" where
  "isDigest e = (case e of CalculateSHA256 p \<Rightarrow> True | _ \<Rightarrow> False)"

text \<open>The continue signal to the recorded PID.\<close>

definition resume :: "string \<Rightarrow> event" where
  "resume pidStr = Exec ''database'' [''kill'', ''-CONT'', pidStr] None"

text \<open>
  The steps that change the deployment: wiping transient data, stopping the application
  containers, restarting dependencies or services, every command run inside a service and
  every copy into one (the restore commands are among these).
\<close>

definition destructive :: "event \<Rightarrow> bool" where
  "destructive e =
     (case e of
        WipeTransientData \<Rightarrow> True
      | StopAppContainers \<Rightarrow> True
      | RestartDependencies \<Rightarrow> True
      | StartServices svcs \<Rightarrow> True
      | StartAppContainers svcs \<Rightarrow> True
      | Exec svc cmd opts \<Rightarrow> True
      | CopyTo svc src dst \<Rightarrow> True
      | _ \<Rightarrow> False)"

text \<open>
  \<open>resumed w pid paused body outcome\<close>: the outcome of a community backup or restore
  whose pause ended with the trace \<open>paused\<close> and whose dump or load returned \<open>body\<close>.
  The continue signal is in the trace, after the pause, followed by log lines only; when
  the signal succeeds the outcome is \<open>body\<close>; when it fails the failure is logged as an
  error, and it is the returned error exactly when \<open>body\<close> is \<^verbatim>\<open>nil\<close>.
\<close>

definition resumed ::
  "world \<Rightarrow> string \<Rightarrow> event list \<Rightarrow> error option \<Rightarrow> (error option \<times> event list) \<Rightarrow> bool" where
  "resumed w pid paused body outcome =
     (\<exists>tA tB. snd outcome = tA @ resume pid # tB
        \<and> prefix paused tA \<and> (\<forall>e \<in> set tB. isLog e)
        \<and> (case failure (answer w tA (resume pid)) of
              None \<Rightarrow> fst outcome = body
            | Some err \<Rightarrow>
                Log LError ''Failed to send SIGCONT to neo4j (pid %s): %v'' [Str pid, ErrV err] \<in> set tB
                \<and> fst outcome =
                    (case body of
                       None \<Rightarrow> Some (Errorf ''failed to resume neo4j process: %w'' [ErrW err])
                     | Some e \<Rightarrow> Some e)))"

section \<open>Concrete worlds\<close>

text \<open>
  \<open>calm\<close>: every command succeeds with empty output, every file exists and is readable.
  Paths are joined with a slash, lower case is ASCII lower case. The other worlds change
  single answers of it.
\<close>

definition cfg0 :: Configuration where
  "cfg0 = \<lparr>BackupDir = ''/backups'', Neo4jDatabase = ''neo4j'', Neo4jUsername = ''neo4j'',
           Neo4jPassword = ''secret'', PostgresUsername = ''postgres'',
           PostgresPassword = ''secret'', PostgresDatabase = ''prefect'', K8sNamespace = []\<rparr>"

definition calm :: world where
  "calm = \<lparr>answer = (\<lambda>t e. Reply [] [] None),
           os_Stat = (\<lambda>p. None),
           os_ReadFile = (\<lambda>p. Inr []),
           calculateSHA256 = (\<lambda>p. Inr []),
           filepath_Walk = (\<lambda>p. []),
           filepath_Join = (\<lambda>ps. strings_Join ps ''/''),
           filepath_Rel = (\<lambda>base p. drop (Suc (length base)) p),
           strings_ToLower = map foldASCII,
           json_Unmarshal = (\<lambda>b. Inl (Foreign ''unexpected end of JSON input'')),
           json_MarshalIndent = (\<lambda>m. Inr (strings_Join (map fst (Checksums m)) '','')),
           createBackupMetadata = (\<lambda>backupID includeTaskManager version edition.
             \<lparr>BackupID = backupID, CreatedAt = [], ToolVersion = [], InfrahubVersion = version,
              Neo4jEdition = edition,
              Components = (if includeTaskManager then [''task-manager-db''] else []),
              Checksums = []\<rparr>),
           selectWatchdogBinary = (\<lambda>arch. Inr ''ELF''),
           podSelectors = (\<lambda>service. [''app='' @ service]),
           nonEmptyLines = (\<lambda>s. filter (\<lambda>l. l \<noteq> []) (strings_Split s (CHR 0x0A))),
           neo4jRemoteWorkDir = ''/tmp/infrahubops_work'',
           neo4jRemoteWatchdogBinary = ''/tmp/infrahubops_work/watchdog'',
           neo4jRemoteWatchdogReady = ''/tmp/infrahubops_work/watchdog.ready'',
           neo4jRemoteWatchdogLog = ''/tmp/infrahubops_work/watchdog.log'',
           neo4jPIDFile = ''/var/lib/neo4j/run/neo4j.pid''\<rparr>"

text \<open>
  A community database with PID 4242: the pause succeeds, \<^verbatim>\<open>neo4j-admin\<close> fails, and the
  continue signal fails too.
\<close>

definition wPaused :: world where
  "wPaused = calm\<lparr>answer := (\<lambda>t e.
     case e of
       Exec svc cmd opts \<Rightarrow>
         (if cmd = [''cat'', ''/var/lib/neo4j/run/neo4j.pid''] then Reply ''4242\<newline>'' [] None
          else if cmd = [''uname'', ''-m''] then Reply ''x86_64\<newline>'' [] None
          else if take 1 cmd = [''neo4j-admin'']
          then Reply ''dump failed'' [] (Some (Foreign ''exit status 1''))
          else if cmd = [''kill'', ''-CONT'', ''4242'']
          then Reply [] [] (Some (Foreign ''exit status 1''))
          else Reply [] [] None)
     | WriteEmbeddedWatchdog b \<Rightarrow> Reply ''/tmp/watchdog'' [] None
     | _ \<Rightarrow> Reply [] [] None)\<rparr>"

text \<open>The readiness marker of the watchdog never appears.\<close>

definition wNotReady :: world where
  "wNotReady = calm\<lparr>answer := (\<lambda>t e.
     case e of
       Exec svc cmd opts \<Rightarrow>
         (if cmd = [''uname'', ''-m''] then Reply ''aarch64\<newline>'' [] None else Reply [] [] None)
     | WriteEmbeddedWatchdog b \<Rightarrow> Reply ''/tmp/watchdog'' [] None
     | WaitForRemoteFile p d \<Rightarrow> Reply [] [] (Some (Foreign ''timed out waiting for file''))
     | _ \<Rightarrow> Reply [] [] None)\<rparr>"

text \<open>The PID file holds something that is no number.\<close>

definition wBadPID :: world where
  "wBadPID = calm\<lparr>answer := (\<lambda>t e.
     case e of
       Exec svc cmd opts \<Rightarrow>
         (if cmd = [''cat'', ''/var/lib/neo4j/run/neo4j.pid''] then Reply ''12a\<newline>'' [] None
          else Reply [] [] None)
     | _ \<Rightarrow> Reply [] [] None)\<rparr>"

text \<open>A cluster in which three namespaces host the workload.\<close>

definition wThree :: world where
  "wThree = calm\<lparr>answer := (\<lambda>t e.
     case e of
       ListKubernetesNamespaces \<Rightarrow> Reply [] [''dev'', ''qa'', ''prod''] None
     | _ \<Rightarrow> Reply [] [] None)\<rparr>"

definition k0 :: KubernetesBackend where
  "k0 = \<lparr>config = cfg0, namespace = [], podCache = []\<rparr>"

text \<open>A namespace in which no pod matches the service: every query succeeds and lists nothing of it.\<close>

definition wNoPods :: world where
  "wNoPods = calm\<lparr>answer := (\<lambda>t e.
     case e of
       RunCommand name args \<Rightarrow>
         (if args = [''get'', ''pods'', ''-n'', [], ''-o'', jsonpathNamePhase]
          then Reply ''cache-0;Running\<newline>'' [] None
          else Reply [] [] None)
     | _ \<Rightarrow> Reply [] [] None)\<rparr>"

text \<open>Two pods answer the first selector, one of them running.\<close>

definition wMixed :: world where
  "wMixed = calm\<lparr>answer := (\<lambda>t e.
     case e of
       RunCommand name args \<Rightarrow> Reply ''Pending\<newline>RUNNING\<newline>'' [] None
     | _ \<Rightarrow> Reply [] [] None)\<rparr>"

section \<open>Rules for runs\<close>

lemma yields_ret: "Q x \<Longrightarrow> yields P Q (ret x)"
  by (simp add: yields_def ret_def)

lemma yields_bnd:
  assumes "yields P R m" and "\<And>x. R x \<Longrightarrow> yields P Q (f x)"
  shows "yields P Q (bnd m f)"
  unfolding yields_def
proof
  fix t
  obtain x t1 where m: "m t = (x, t1)" by (cases "m t")
  from assms(1) m obtain n1 where n1: "t1 = t @ n1" "\<forall>e \<in> set n1. P e" "R x"
    unfolding yields_def by (metis fst_conv snd_conv)
  from assms(2) [OF n1(3)] obtain n2
    where n2: "snd (f x t1) = t1 @ n2" "\<forall>e \<in> set n2. P e" "Q (fst (f x t1))"
    unfolding yields_def by blast
  have "snd (bnd m f t) = t @ (n1 @ n2)" using m n1 n2 by (simp add: bnd_def)
  moreover have "\<forall>e \<in> set (n1 @ n2). P e" using n1 n2 by auto
  moreover have "Q (fst (bnd m f t))" using m n2 by (simp add: bnd_def)
  ultimately show "\<exists>new. snd (bnd m f t) = t @ new \<and> (\<forall>e \<in> set new. P e) \<and> Q (fst (bnd m f t))"
    by blast
qed

lemma yields_perform: "P e \<Longrightarrow> yields P (\<lambda>r. \<exists>t. r = answer w t e) (perform w e)"
  by (auto simp add: yields_def perform_def)

lemma yields_perform_bnd:
  assumes "P e" and "\<And>t. yields P Q (f (answer w t e))"
  shows "yields P Q (bnd (perform w e) f)"
proof (rule yields_bnd)
  show "yields P (\<lambda>r. \<exists>t. r = answer w t e) (perform w e)"
    using assms(1) by (rule yields_perform)
next
  fix x
  assume "\<exists>t. x = answer w t e"
  then show "yields P Q (f x)" using assms(2) by auto
qed

lemma yields_logf: "P (Log l f ops) \<Longrightarrow> Q () \<Longrightarrow> yields P Q (logf l f ops)"
  by (simp add: yields_def logf_def)

lemma yields_stat: "P (OsStat p) \<Longrightarrow> yields P (\<lambda>r. r = os_Stat w p) (stat w p)"
  by (simp add: yields_def stat_def)

lemma yields_readFile: "P (OsReadFile p) \<Longrightarrow> yields P (\<lambda>r. r = os_ReadFile w p) (readFile w p)"
  by (simp add: yields_def readFile_def)

lemma yields_sha256: "P (CalculateSHA256 p) \<Longrightarrow> yields P (\<lambda>r. r = calculateSHA256 w p) (sha256 w p)"
  by (simp add: yields_def sha256_def)

lemma yields_whenSome:
  "(\<And>e. x = Some e \<Longrightarrow> yields P Q (f e)) \<Longrightarrow> (x = None \<Longrightarrow> Q ()) \<Longrightarrow> yields P Q (whenSome x f)"
  by (cases x) (simp_all add: whenSome_def yields_ret)

lemma yields_option:
  "(x = None \<Longrightarrow> yields P Q a) \<Longrightarrow> (\<And>y. x = Some y \<Longrightarrow> yields P Q (b y))
     \<Longrightarrow> yields P Q (case x of None \<Rightarrow> a | Some y \<Rightarrow> b y)"
  by (cases x) simp_all

lemma yields_sum:
  "(\<And>y. x = Inl y \<Longrightarrow> yields P Q (a y)) \<Longrightarrow> (\<And>y. x = Inr y \<Longrightarrow> yields P Q (b y))
     \<Longrightarrow> yields P Q (case x of Inl y \<Rightarrow> a y | Inr y \<Rightarrow> b y)"
  by (cases x) simp_all

lemma yields_if:
  "(c \<Longrightarrow> yields P Q a) \<Longrightarrow> (\<not> c \<Longrightarrow> yields P Q b) \<Longrightarrow> yields P Q (if c then a else b)"
  by simp

lemma yields_Let: "yields P Q (f x) \<Longrightarrow> yields P Q (Let x f)"
  by simp

lemma yields_weaken:
  "yields P Q m \<Longrightarrow> (\<And>e. P e \<Longrightarrow> P' e) \<Longrightarrow> (\<And>x. Q x \<Longrightarrow> Q' x) \<Longrightarrow> yields P' Q' m"
  unfolding yields_def by metis

lemma yields_run:
  assumes "yields P Q m"
  shows "\<exists>new. snd (m t) = t @ new \<and> (\<forall>e \<in> set new. P e) \<and> Q (fst (m t))"
  using assms unfolding yields_def by blast

lemmas yields_intros = yields_perform_bnd yields_bnd yields_option yields_sum yields_if yields_Let
  yields_ret yields_whenSome yields_logf yields_stat yields_readFile yields_sha256

section \<open>The stop sequence and the watchdog\<close>

lemma detectNeo4jArchitecture_yields:
  "P (Exec ''database'' [''uname'', ''-m''] None) \<Longrightarrow> yields P (\<lambda>_. True) (detectNeo4jArchitecture w)"
  unfolding detectNeo4jArchitecture_def
  by (intro yields_intros; simp)

lemma deployed_never_kills:
  assumes "\<forall>t. failure (answer w t
             (WaitForRemoteFile (neo4jRemoteWatchdogReady w) neo4jWatchdogInitTimeout)) \<noteq> None"
  shows "yields (\<lambda>e. \<not> isKill e) (\<lambda>r. r \<noteq> None) (stopNeo4jCommunity_deployed w pidStr localWatchdog)"
  unfolding stopNeo4jCommunity_deployed_def using assms
  by (intro yields_intros; simp add: isKill_def)

lemma stop_never_kills:
  assumes "\<forall>t. failure (answer w t
             (WaitForRemoteFile (neo4jRemoteWatchdogReady w) neo4jWatchdogInitTimeout)) \<noteq> None"
  shows "yields (\<lambda>e. \<not> isKill e) (\<lambda>r. r \<noteq> None) (stopNeo4jCommunity w pidStr)"
  unfolding stopNeo4jCommunity_def
  apply (intro yields_perform_bnd yields_option yields_sum yields_ret
      yields_bnd [OF detectNeo4jArchitecture_yields] yields_bnd [OF deployed_never_kills [OF assms]])
  apply (simp_all add: isKill_def)
  done

text \<open>
  C4. In a world where waiting for the readiness marker of the watchdog, with the timeout
  \<open>neo4jWatchdogInitTimeout\<close> of five seconds, fails whenever it is asked for,
  \<^verbatim>\<open>stopNeo4jCommunity\<close> returns an error and runs no \<^verbatim>\<open>kill\<close> command: the stop signal is
  never sent to the database process.
\<close>

theorem stop_without_watchdog_sends_no_signal:
  assumes "\<forall>t. failure (answer w t
             (WaitForRemoteFile (neo4jRemoteWatchdogReady w) neo4jWatchdogInitTimeout)) \<noteq> None"
  shows "neo4jWatchdogInitTimeout = 5 * 1000000000
     \<and> fst (stopNeo4jCommunity w pidStr t) \<noteq> None
     \<and> (\<exists>new. snd (stopNeo4jCommunity w pidStr t) = t @ new \<and> (\<forall>e \<in> set new. \<not> isKill e))"
  using yields_run [OF stop_never_kills [OF assms], of pidStr t]
  by (auto simp add: neo4jWatchdogInitTimeout_def second_def)

theorem stop_without_watchdog_sends_no_signal_witness:
  "fst (stopNeo4jCommunity wNotReady ''4242'' []) =
      Some (Errorf ''watchdog failed to initialize: %w'' [ErrW (Foreign ''timed out waiting for file'')])
   \<and> Exec ''database'' [''kill'', ''4242''] None \<notin> set (snd (stopNeo4jCommunity wNotReady ''4242'' []))"
proof -
  have hyp: "\<forall>t. failure (answer wNotReady t
      (WaitForRemoteFile (neo4jRemoteWatchdogReady wNotReady) neo4jWatchdogInitTimeout)) \<noteq> None"
    by (simp add: wNotReady_def calm_def)
  have res: "fst (stopNeo4jCommunity wNotReady ''4242'' []) =
      Some (Errorf ''watchdog failed to initialize: %w'' [ErrW (Foreign ''timed out waiting for file'')])"
    by code_simp
  have "isKill (Exec ''database'' [''kill'', ''4242''] None)" by (simp add: isKill_def)
  with stop_without_watchdog_sends_no_signal [OF hyp, of "''4242''" "[]"] res
  show ?thesis by auto
qed

section \<open>The PID file\<close>

text \<open>
  C8. \<^verbatim>\<open>readNeo4jPID\<close> runs one command, the \<^verbatim>\<open>cat\<close> of the PID file. When the content,
  trimmed, is empty or is not accepted by \<^verbatim>\<open>strconv.Atoi\<close>, it returns an error; a PID it
  returns is the trimmed content, not empty, and an integer for \<^verbatim>\<open>strconv.Atoi\<close>. On an
  error the community backup and the community restore return that error with the
  \<^verbatim>\<open>cat\<close> as their only event: no signal is sent.
\<close>

theorem readNeo4jPID_validates:
  assumes "readNeo4jPID w t = (r, t')"
  shows "t' = t @ [Exec ''database'' [''cat'', neo4jPIDFile w] None]
     \<and> (let content = strings_TrimSpace
                          (stdout (answer w t (Exec ''database'' [''cat'', neo4jPIDFile w] None)))
        in (content = [] \<or> isl (strconv_Atoi content) \<longrightarrow> isl r)
         \<and> (\<forall>pid. r = Inr pid \<longrightarrow> pid = content \<and> pid \<noteq> [] \<and> (\<exists>n. strconv_Atoi pid = Inr n)))
     \<and> (\<forall>err. r = Inl err \<longrightarrow>
           backupNeo4jCommunity w cfg backupDir t = (Some err, t')
         \<and> restoreNeo4jCommunity w cfg migrate t = (Some err, t')
         \<and> (\<forall>e \<in> set (drop (length t) t'). \<not> isKill e))"
  using assms
  by (auto simp add: readNeo4jPID_def backupNeo4jCommunity_def restoreNeo4jCommunity_def bnd_def
      perform_def ret_def Let_def isKill_def split: option.splits sum.splits if_splits)

theorem readNeo4jPID_validates_witness:
  "readNeo4jPID wBadPID [] =
     (Inl (Errorf ''invalid pid %q: %w'' [Str ''12a'', ErrW (NumError ''Atoi'' ''12a'' ErrSyntax)]),
      [Exec ''database'' [''cat'', ''/var/lib/neo4j/run/neo4j.pid''] None])
   \<and> backupNeo4jCommunity wBadPID cfg0 ''/tmp/work/backup'' [] =
     (Some (Errorf ''invalid pid %q: %w'' [Str ''12a'', ErrW (NumError ''Atoi'' ''12a'' ErrSyntax)]),
      [Exec ''database'' [''cat'', ''/var/lib/neo4j/run/neo4j.pid''] None])"
proof -
  have run: "readNeo4jPID wBadPID [] =
     (Inl (Errorf ''invalid pid %q: %w'' [Str ''12a'', ErrW (NumError ''Atoi'' ''12a'' ErrSyntax)]),
      [Exec ''database'' [''cat'', ''/var/lib/neo4j/run/neo4j.pid''] None])"
    by code_simp
  from readNeo4jPID_validates [OF run, of cfg0 "''/tmp/work/backup''" False] run
  show ?thesis by simp
qed

section \<open>Resuming the paused database\<close>

lemma dump_extends: "\<exists>new. snd (backupNeo4jCommunity_dump w cfg dir t) = t @ new"
proof -
  have "yields (\<lambda>_. True) (\<lambda>_. True) (backupNeo4jCommunity_dump w cfg dir)"
    unfolding backupNeo4jCommunity_dump_def by (intro yields_intros; simp)
  then show ?thesis unfolding yields_def by blast
qed

lemma load_extends: "\<exists>new. snd (restoreNeo4jCommunity_load w cfg m t) = t @ new"
proof -
  have "yields (\<lambda>_. True) (\<lambda>_. True) (restoreNeo4jCommunity_load w cfg m)"
    unfolding restoreNeo4jCommunity_load_def by (intro yields_intros; simp)
  then show ?thesis unfolding yields_def by blast
qed

lemma backup_deferred_resumes:
  "resumed w pid t body (backupNeo4jCommunity_deferred w pid body t)"
proof -
  define rm where "rm = Exec ''database''
            [''rm'', ''-f'', neo4jRemoteWatchdogBinary w, neo4jRemoteWatchdogReady w,
             neo4jRemoteWatchdogLog w] None"
  define tA where "tA = (case failure (answer w t rm) of None \<Rightarrow> t @ [rm]
     | Some err \<Rightarrow> t @ [rm, Log LDebug ''Failed to remove watchdog artifacts: %v'' [ErrV err]])"
  define tB where "tB = (case failure (answer w tA (resume pid)) of None \<Rightarrow> []
     | Some err \<Rightarrow> [Log LError ''Failed to send SIGCONT to neo4j (pid %s): %v'' [Str pid, ErrV err]])"
  have "snd (backupNeo4jCommunity_deferred w pid body t) = tA @ resume pid # tB"
    by (simp add: backupNeo4jCommunity_deferred_def bnd_def perform_def whenSome_def ret_def logf_def
        tA_def tB_def rm_def resume_def split: option.splits)
  moreover have "prefix t tA" by (simp add: tA_def split: option.splits)
  moreover have "\<forall>e \<in> set tB. isLog e" by (auto simp add: tB_def isLog_def split: option.splits)
  moreover have "(case failure (answer w tA (resume pid)) of
            None \<Rightarrow> fst (backupNeo4jCommunity_deferred w pid body t) = body
          | Some err \<Rightarrow>
              Log LError ''Failed to send SIGCONT to neo4j (pid %s): %v'' [Str pid, ErrV err] \<in> set tB
              \<and> fst (backupNeo4jCommunity_deferred w pid body t) =
                  (case body of
                     None \<Rightarrow> Some (Errorf ''failed to resume neo4j process: %w'' [ErrW err])
                   | Some e \<Rightarrow> Some e))"
    by (auto simp add: backupNeo4jCommunity_deferred_def bnd_def perform_def whenSome_def ret_def logf_def
        tA_def tB_def rm_def resume_def split: option.splits)
  ultimately show ?thesis unfolding resumed_def by blast
qed

lemma restore_deferred_resumes:
  "resumed w pid t body (restoreNeo4jCommunity_deferred w pid body t)"
proof -
  define rm0 where "rm0 = Exec ''database'' [''rm'', ''-rf'', neo4jTempBackupDir] None"
  define rm where "rm = Exec ''database''
            [''rm'', ''-f'', neo4jRemoteWatchdogBinary w, neo4jRemoteWatchdogReady w,
             neo4jRemoteWatchdogLog w] None"
  define t0 where "t0 = (case failure (answer w t rm0) of None \<Rightarrow> t @ [rm0]
     | Some err \<Rightarrow> t @ [rm0, Log LWarn ''Failed to cleanup temporary Neo4j backup data: %v'' [ErrV err]])"
  define tA where "tA = (case failure (answer w t0 rm) of None \<Rightarrow> t0 @ [rm]
     | Some err \<Rightarrow> t0 @ [rm, Log LDebug ''Failed to remove watchdog artifacts: %v'' [ErrV err]])"
  define tB where "tB = (case failure (answer w tA (resume pid)) of None \<Rightarrow> []
     | Some err \<Rightarrow> [Log LError ''Failed to send SIGCONT to neo4j (pid %s): %v'' [Str pid, ErrV err]])"
  have "snd (restoreNeo4jCommunity_deferred w pid body t) = tA @ resume pid # tB"
    by (simp add: restoreNeo4jCommunity_deferred_def bnd_def perform_def whenSome_def ret_def logf_def
        tA_def tB_def t0_def rm_def rm0_def resume_def split: option.splits)
  moreover have "prefix t t0" by (simp add: t0_def split: option.splits)
  moreover have "prefix t0 tA" by (simp add: tA_def split: option.splits)
  moreover have "\<forall>e \<in> set tB. isLog e" by (auto simp add: tB_def isLog_def split: option.splits)
  moreover have "(case failure (answer w tA (resume pid)) of
            None \<Rightarrow> fst (restoreNeo4jCommunity_deferred w pid body t) = body
          | Some err \<Rightarrow>
              Log LError ''Failed to send SIGCONT to neo4j (pid %s): %v'' [Str pid, ErrV err] \<in> set tB
              \<and> fst (restoreNeo4jCommunity_deferred w pid body t) =
                  (case body of
                     None \<Rightarrow> Some (Errorf ''failed to resume neo4j process: %w'' [ErrW err])
                   | Some e \<Rightarrow> Some e))"
    by (auto simp add: restoreNeo4jCommunity_deferred_def bnd_def perform_def whenSome_def ret_def logf_def
        tA_def tB_def t0_def rm_def rm0_def resume_def split: option.splits)
  ultimately show ?thesis unfolding resumed_def by (meson prefix_order.order_trans)
qed

lemma resumed_later: "prefix t2 tD \<Longrightarrow> resumed w pid tD body outcome \<Longrightarrow> resumed w pid t2 body outcome"
  unfolding resumed_def by (meson prefix_order.order_trans)

text \<open>
  C3. Once the PID has been read and \<^verbatim>\<open>stopNeo4jCommunity\<close> has returned \<^verbatim>\<open>nil\<close> (the
  database process is paused), the community backup and the community restore send the
  continue signal to that PID whatever the dump or the load returns, as the last command
  of the operation. A failure of the signal is logged as an error; it is the returned
  error when the dump or load succeeded, and the earlier error stays the returned one
  otherwise.
\<close>

theorem paused_database_is_resumed:
  assumes "readNeo4jPID w t0 = (Inr pid, t1)" and "stopNeo4jCommunity w pid t1 = (None, t2)"
  shows "resumed w pid t2 (fst (backupNeo4jCommunity_dump w cfg backupDir t2))
           (backupNeo4jCommunity w cfg backupDir t0)
       \<and> resumed w pid t2 (fst (restoreNeo4jCommunity_load w cfg migrate t2))
           (restoreNeo4jCommunity w cfg migrate t0)"
proof
  obtain body tD where d: "backupNeo4jCommunity_dump w cfg backupDir t2 = (body, tD)"
    by (cases "backupNeo4jCommunity_dump w cfg backupDir t2")
  have p: "prefix t2 tD" using dump_extends [of w cfg backupDir t2] d by auto
  have eq: "backupNeo4jCommunity w cfg backupDir t0 = backupNeo4jCommunity_deferred w pid body tD"
    using assms d by (simp add: backupNeo4jCommunity_def bnd_def)
  show "resumed w pid t2 (fst (backupNeo4jCommunity_dump w cfg backupDir t2))
           (backupNeo4jCommunity w cfg backupDir t0)"
    unfolding eq d fst_conv by (rule resumed_later [OF p backup_deferred_resumes])
next
  obtain body tD where d: "restoreNeo4jCommunity_load w cfg migrate t2 = (body, tD)"
    by (cases "restoreNeo4jCommunity_load w cfg migrate t2")
  have p: "prefix t2 tD" using load_extends [of w cfg migrate t2] d by auto
  have eq: "restoreNeo4jCommunity w cfg migrate t0 = restoreNeo4jCommunity_deferred w pid body tD"
    using assms d by (simp add: restoreNeo4jCommunity_def bnd_def)
  show "resumed w pid t2 (fst (restoreNeo4jCommunity_load w cfg migrate t2))
           (restoreNeo4jCommunity w cfg migrate t0)"
    unfolding eq d fst_conv by (rule resumed_later [OF p restore_deferred_resumes])
qed

theorem paused_database_is_resumed_witness:
  "readNeo4jPID wPaused [] =
     (Inr ''4242'', [Exec ''database'' [''cat'', ''/var/lib/neo4j/run/neo4j.pid''] None])
   \<and> fst (stopNeo4jCommunity wPaused ''4242''
            [Exec ''database'' [''cat'', ''/var/lib/neo4j/run/neo4j.pid''] None]) = None
   \<and> resume ''4242'' \<in> set (snd (backupNeo4jCommunity wPaused cfg0 ''/tmp/work/backup'' []))
   \<and> fst (backupNeo4jCommunity wPaused cfg0 ''/tmp/work/backup'' []) =
       Some (Errorf ''failed to dump neo4j database: %w\<newline>Output: %v''
               [ErrW (Foreign ''exit status 1''), Str ''dump failed''])
   \<and> Log LError ''Failed to send SIGCONT to neo4j (pid %s): %v''
         [Str ''4242'', ErrV (Foreign ''exit status 1'')]
       \<in> set (snd (backupNeo4jCommunity wPaused cfg0 ''/tmp/work/backup'' []))"
proof -
  define t1 where "t1 = [Exec ''database'' [''cat'', ''/var/lib/neo4j/run/neo4j.pid''] None]"
  define t2 where "t2 = snd (stopNeo4jCommunity wPaused ''4242'' t1)"
  have h1: "readNeo4jPID wPaused [] = (Inr ''4242'', t1)"
    unfolding t1_def by code_simp
  have h2: "fst (stopNeo4jCommunity wPaused ''4242'' t1) = None"
    unfolding t1_def by code_simp
  then have h2': "stopNeo4jCommunity wPaused ''4242'' t1 = (None, t2)"
    unfolding t2_def by (metis prod.collapse)
  have body: "fst (backupNeo4jCommunity_dump wPaused cfg0 ''/tmp/work/backup'' t2) =
      Some (Errorf ''failed to dump neo4j database: %w\<newline>Output: %v''
               [ErrW (Foreign ''exit status 1''), Str ''dump failed''])"
    unfolding t2_def t1_def by code_simp
  have ans: "answer wPaused t (resume ''4242'') = Reply [] [] (Some (Foreign ''exit status 1''))" for t
    by (simp add: wPaused_def calm_def resume_def)
  from paused_database_is_resumed [OF h1 h2', of cfg0 "''/tmp/work/backup''" False]
  have "resumed wPaused ''4242'' t2
          (fst (backupNeo4jCommunity_dump wPaused cfg0 ''/tmp/work/backup'' t2))
          (backupNeo4jCommunity wPaused cfg0 ''/tmp/work/backup'' [])"
    by simp
  then show ?thesis
    using h1 h2 unfolding resumed_def body ans t1_def by auto
qed

section \<open>Detection of the Kubernetes namespace\<close>

lemma sublist_Join: "x \<in> set xs \<Longrightarrow> sublist x (strings_Join xs sep)"
proof (induction xs sep rule: strings_Join.induct)
  case (1 sep)
  then show ?case by simp
next
  case (2 y sep)
  then show ?case by simp
next
  case (3 y z zs sep)
  show ?case
  proof (cases "x = y")
    case True
    then show ?thesis unfolding sublist_def by (metis append.simps(1) strings_Join.simps(3))
  next
    case False
    with 3 have "sublist x (strings_Join (z # zs) sep)" by simp
    then have "sublist x ((y @ sep) @ strings_Join (z # zs) sep)"
      unfolding sublist_def by (metis append.assoc)
    then show ?thesis by simp
  qed
qed

text \<open>
  C7. \<^verbatim>\<open>KubernetesBackend.Detect\<close> with no configured namespace, once \<^verbatim>\<open>kubectl\<close> has
  answered and the namespaces have been listed: no candidate gives the error
  \<^verbatim>\<open>ErrEnvironmentNotFound\<close>; one candidate is accepted and stored as the namespace of the
  backend and of the configuration; several candidates give the error
  \<^verbatim>\<open>multiple kubernetes namespaces found\<close>, whose \<^verbatim>\<open>%s\<close> operand is the candidates joined
  with commas, so that it contains each of them.
\<close>

theorem Detect_discovery:
  assumes "failure (answer w t (RunCommandQuiet ''kubectl'' [''version'', ''--client''])) = None"
    and "failure (answer w (t @ [RunCommandQuiet ''kubectl'' [''version'', ''--client'']])
           ListKubernetesNamespaces) = None"
    and "K8sNamespace (config k) = []"
    and "candidates = items (answer w (t @ [RunCommandQuiet ''kubectl'' [''version'', ''--client'']])
           ListKubernetesNamespaces)"
  shows "(candidates = [] \<longrightarrow> fst (fst (Detect w k t)) = Some ErrEnvironmentNotFound)
     \<and> (\<forall>ns. candidates = [ns] \<longrightarrow>
           fst (fst (Detect w k t)) = None
         \<and> namespace (snd (fst (Detect w k t))) = ns
         \<and> K8sNamespace (config (snd (fst (Detect w k t)))) = ns)
     \<and> (length candidates > 1 \<longrightarrow>
           fst (fst (Detect w k t)) = Some (Errorf
               ''multiple kubernetes namespaces found: %s (set INFRAHUB_K8S_NAMESPACE)''
               [Str (strings_Join candidates '', '')])
         \<and> (\<forall>ns \<in> set candidates. sublist ns (strings_Join candidates '', '')))"
  using assms
  by (auto simp add: Detect_def bnd_def perform_def ret_def Let_def sublist_Join
      split: list.splits)

theorem Detect_discovery_witness:
  "failure (answer wThree [] (RunCommandQuiet ''kubectl'' [''version'', ''--client''])) = None
   \<and> failure (answer wThree [RunCommandQuiet ''kubectl'' [''version'', ''--client'']]
         ListKubernetesNamespaces) = None
   \<and> K8sNamespace (config k0) = []
   \<and> items (answer wThree [RunCommandQuiet ''kubectl'' [''version'', ''--client'']]
         ListKubernetesNamespaces) = [''dev'', ''qa'', ''prod'']
   \<and> fst (fst (Detect wThree k0 [])) = Some (Errorf
         ''multiple kubernetes namespaces found: %s (set INFRAHUB_K8S_NAMESPACE)''
         [Str ''dev, qa, prod''])
   \<and> sublist ''dev'' ''dev, qa, prod'' \<and> sublist ''qa'' ''dev, qa, prod''
   \<and> sublist ''prod'' ''dev, qa, prod''
   \<and> fst (fst (Detect calm k0 [])) = Some ErrEnvironmentNotFound"
proof -
  have a: "failure (answer wThree [] (RunCommandQuiet ''kubectl'' [''version'', ''--client''])) = None"
    by (simp add: wThree_def calm_def)
  have b: "failure (answer wThree ([] @ [RunCommandQuiet ''kubectl'' [''version'', ''--client'']])
         ListKubernetesNamespaces) = None"
    by (simp add: wThree_def calm_def)
  have c: "K8sNamespace (config k0) = []" by (simp add: k0_def cfg0_def)
  have d: "[''dev'', ''qa'', ''prod''] =
      items (answer wThree ([] @ [RunCommandQuiet ''kubectl'' [''version'', ''--client'']])
         ListKubernetesNamespaces)"
    by (simp add: wThree_def calm_def)
  have a0: "failure (answer calm [] (RunCommandQuiet ''kubectl'' [''version'', ''--client''])) = None"
    by (simp add: calm_def)
  have b0: "failure (answer calm ([] @ [RunCommandQuiet ''kubectl'' [''version'', ''--client'']])
         ListKubernetesNamespaces) = None"
    by (simp add: calm_def)
  have d0: "[] = items (answer calm ([] @ [RunCommandQuiet ''kubectl'' [''version'', ''--client'']])
         ListKubernetesNamespaces)"
    by (simp add: calm_def)
  from Detect_discovery [OF a b c d]
  have three: "fst (fst (Detect wThree k0 [])) = Some (Errorf
         ''multiple kubernetes namespaces found: %s (set INFRAHUB_K8S_NAMESPACE)''
         [Str ''dev, qa, prod''])
      \<and> sublist ''dev'' ''dev, qa, prod'' \<and> sublist ''qa'' ''dev, qa, prod''
      \<and> sublist ''prod'' ''dev, qa, prod''"
    by simp
  from Detect_discovery [OF a0 b0 c d0]
  have zero: "fst (fst (Detect calm k0 [])) = Some ErrEnvironmentNotFound"
    by simp
  have "items (answer wThree [RunCommandQuiet ''kubectl'' [''version'', ''--client'']]
         ListKubernetesNamespaces) = [''dev'', ''qa'', ''prod'']"
    using d by simp
  with three zero a b c show ?thesis by simp
qed

section \<open>Running state of a service\<close>

lemma anyRunning_iff: "anyRunning statuses = (\<exists>s \<in> set statuses. strings_EqualFold s ''Running'')"
  by (induction statuses) auto

text \<open>
  C10. When \<^verbatim>\<open>getPodStatuses\<close> returns statuses without error, \<^verbatim>\<open>IsRunning\<close> returns
  no error, and \<^verbatim>\<open>true\<close> exactly when one of the statuses equals \<^verbatim>\<open>Running\<close> up to the
  case of its letters; with no status at all it returns \<^verbatim>\<open>(false, nil)\<close>.
\<close>

theorem IsRunning_iff_some_pod_running:
  assumes "getPodStatuses w k service t = (Inr statuses, t')"
  shows "IsRunning w k service t =
           ((\<exists>s \<in> set statuses. strings_EqualFold s ''Running'', None), t')
     \<and> (statuses = [] \<longrightarrow> IsRunning w k service t = ((False, None), t'))"
  using assms by (simp add: IsRunning_def bnd_def ret_def anyRunning_iff)

theorem IsRunning_iff_some_pod_running_witness:
  "fst (getPodStatuses wNoPods k0 ''database'' []) = Inr []
   \<and> fst (IsRunning wNoPods k0 ''database'' []) = (False, None)
   \<and> fst (getPodStatuses wMixed k0 ''database'' []) = Inr [''Pending'', ''RUNNING'']
   \<and> strings_EqualFold ''RUNNING'' ''Running''
   \<and> fst (IsRunning wMixed k0 ''database'' []) = (True, None)"
proof -
  have a: "fst (getPodStatuses wNoPods k0 ''database'' []) = Inr []" by code_simp
  then have a': "getPodStatuses wNoPods k0 ''database'' [] =
      (Inr [], snd (getPodStatuses wNoPods k0 ''database'' []))"
    by (metis prod.collapse)
  have b: "fst (getPodStatuses wMixed k0 ''database'' []) = Inr [''Pending'', ''RUNNING'']"
    by code_simp
  then have b': "getPodStatuses wMixed k0 ''database'' [] =
      (Inr [''Pending'', ''RUNNING''], snd (getPodStatuses wMixed k0 ''database'' []))"
    by (metis prod.collapse)
  have c: "strings_EqualFold ''RUNNING'' ''Running''" by code_simp
  from IsRunning_iff_some_pod_running [OF a'] IsRunning_iff_some_pod_running [OF b'] a b c
  show ?thesis by simp
qed


end
